theory Spec2Isabelle
  imports Main "HOL-Library.Word"
begin

unbundle bit_operations_syntax

section \<open>Primitive types\<close>

type_synonym byte = "8 word"
type_synonym uint16 = "16 word"
type_synonym uint32 = "32 word"
type_synonym uint64 = "64 word"

text \<open>A point in time (Go's \<open>time.Time\<close>), counted in clock ticks. The zero value of
  \<open>time.Time\<close> is tick 0: a \<open>nullzero\<close> column holding it is stored as NULL, "unset".\<close>

type_synonym Time = nat

definition zeroTime :: Time where
  "zeroTime = 0"

datatype error = ErrShortRead | ErrBadFraming | Err string

section \<open>The oscar package: byte buffer, TLV, FLAP and SNAC codecs\<close>

text \<open>The source of package \<open>oscar\<close> (byte buffer, TLV, FLAP, SNAC, session) is not
  part of the repository files at hand; \<open>main\<close> calls into it. Each definition of this
  section is modelled from the spec, as its comment says. A buffer is the list of its
  bytes.\<close>

text \<open>Modelled from the spec: the big-endian bytes of a uint16 (section 4.1, byte buffer
  of package \<open>oscar\<close>).\<close>

definition PutUint16 :: "uint16 \<Rightarrow> byte list" where
  "PutUint16 v = [ucast (drop_bit 8 v), ucast v]"

text \<open>Modelled from the spec: the uint16 of two big-endian bytes (section 4.1, byte buffer
  of package \<open>oscar\<close>).\<close>

definition Uint16 :: "byte \<Rightarrow> byte \<Rightarrow> uint16" where
  "Uint16 b1 b0 = push_bit 8 (ucast b1) OR ucast b0"

text \<open>Modelled from the spec: the big-endian bytes of a uint32 (section 4.1, byte buffer
  of package \<open>oscar\<close>).\<close>

definition PutUint32 :: "uint32 \<Rightarrow> byte list" where
  "PutUint32 v =
     [ucast (drop_bit 24 v), ucast (drop_bit 16 v), ucast (drop_bit 8 v), ucast v]"

text \<open>Modelled from the spec: the uint32 of four big-endian bytes (section 4.1, byte buffer
  of package \<open>oscar\<close>).\<close>

definition Uint32 :: "byte \<Rightarrow> byte \<Rightarrow> byte \<Rightarrow> byte \<Rightarrow> uint32" where
  "Uint32 b3 b2 b1 b0 =
     push_bit 24 (ucast b3) OR push_bit 16 (ucast b2) OR push_bit 8 (ucast b1) OR ucast b0"

text \<open>Modelled from the spec: \<open>Buffer.WriteUint16\<close> of package \<open>oscar\<close> (section 4.1):
  a write appends and always succeeds.\<close>

definition WriteUint16 :: "byte list \<Rightarrow> uint16 \<Rightarrow> byte list" where
  "WriteUint16 buf v = buf @ PutUint16 v"

text \<open>Modelled from the spec: \<open>Buffer.WriteUint32\<close> of package \<open>oscar\<close> (section
  4.1).\<close>

definition WriteUint32 :: "byte list \<Rightarrow> uint32 \<Rightarrow> byte list" where
  "WriteUint32 buf v = buf @ PutUint32 v"

text \<open>Modelled from the spec: the raw write of bytes to a buffer of package \<open>oscar\<close>
  (section 4.1); \<open>WriteBinary\<close> writes the encoding of its argument this way.\<close>

definition Write :: "byte list \<Rightarrow> byte list \<Rightarrow> byte list" where
  "Write buf bs = buf @ bs"

subsection \<open>TLV\<close>

text \<open>Modelled from the spec: \<open>oscar.TLV\<close> (section 4.2), a TLV is (type: uint16,
  length: uint16, value: bytes[length]). The length on the wire is the length of the
  value.\<close>

record TLV =
  Type :: uint16
  Value :: "byte list"

text \<open>A TLV that can be written: the length of its value fits the 16-bit length field.\<close>

definition valid_TLV :: "TLV \<Rightarrow> bool" where
  "valid_TLV t = (length (Value t) < 65536)"

text \<open>Modelled from the spec: the encoding of one \<open>oscar.TLV\<close> (section 4.2), type,
  length, value.\<close>

definition TLV_MarshalBinary :: "TLV \<Rightarrow> byte list" where
  "TLV_MarshalBinary t =
     PutUint16 (Type t) @ PutUint16 (of_nat (length (Value t))) @ Value t"

text \<open>Modelled from the spec: the encoding of a list of \<open>oscar.TLV\<close> (section 4.2)
  concatenates the TLVs in the given order.\<close>

definition MarshalTLVs :: "TLV list \<Rightarrow> byte list" where
  "MarshalTLVs ts = concat (map TLV_MarshalBinary ts)"

text \<open>Modelled from the spec: \<open>oscar.UnmarshalTLVs\<close> (section 4.2) consumes TLVs until
  the buffer is empty and fails if a truncated TLV remains.\<close>

fun UnmarshalTLVs :: "byte list \<Rightarrow> error + TLV list" where
  "UnmarshalTLVs [] = Inr []"
| "UnmarshalTLVs (t1 # t0 # l1 # l0 # rest) =
     (let n = unat (Uint16 l1 l0) in
      if length rest < n then Inl ErrShortRead
      else (case UnmarshalTLVs (drop n rest) of
              Inl e \<Rightarrow> Inl e
            | Inr ts \<Rightarrow> Inr (\<lparr>Type = Uint16 t1 t0, Value = take n rest\<rparr> # ts)))"
| "UnmarshalTLVs _ = Inl ErrShortRead"

subsection \<open>FLAP\<close>

text \<open>Modelled from the spec: the header of \<open>oscar.FLAP\<close> (section 4.3), channel
  (uint8), sequence (uint16), payload length (uint16). The handler reads
  \<open>flap.Header.Channel\<close>.\<close>

record FLAPHeader =
  Channel :: byte
  SequenceNumber :: uint16
  DataLength :: uint16

text \<open>Modelled from the spec: \<open>oscar.FLAP\<close> (section 4.3), the header and the payload.
  The handler reads \<open>flap.Data.Bytes()\<close>.\<close>

record FLAP =
  FLAP_Header :: FLAPHeader
  FLAP_Data :: "byte list"

text \<open>A FLAP that can be written and read back: the payload fits the 16-bit length field
  and the header carries its length.\<close>

definition valid_FLAP :: "FLAP \<Rightarrow> bool" where
  "valid_FLAP f =
     (length (FLAP_Data f) < 65536 \<and>
      DataLength (FLAP_Header f) = of_nat (length (FLAP_Data f)))"

text \<open>Modelled from the spec: \<open>oscar.NewFLAP\<close>, a frame of the given channel with an
  empty payload; the sequence number is assigned when the frame is sent (section 4.3).\<close>

definition NewFLAP :: "byte \<Rightarrow> FLAP" where
  "NewFLAP channel =
     \<lparr>FLAP_Header = \<lparr>Channel = channel, SequenceNumber = 0, DataLength = 0\<rparr>,
      FLAP_Data = []\<rparr>"

text \<open>Modelled from the spec: the encoding of \<open>oscar.FLAP\<close> (section 4.3), the start
  byte \<open>0x2A\<close>, channel, sequence and payload length big-endian, then the payload.\<close>

definition FLAP_MarshalBinary :: "FLAP \<Rightarrow> byte list" where
  "FLAP_MarshalBinary f =
     [0x2A, Channel (FLAP_Header f)] @ PutUint16 (SequenceNumber (FLAP_Header f)) @
     PutUint16 (of_nat (length (FLAP_Data f))) @ FLAP_Data f"

text \<open>Modelled from the spec: the decoding of \<open>oscar.FLAP\<close> (section 4.3). It fails with
  \<open>ErrBadFraming\<close> on a wrong start byte and with \<open>ErrShortRead\<close> on a truncated header
  or payload.\<close>

fun FLAP_UnmarshalBinary :: "byte list \<Rightarrow> error + FLAP" where
  "FLAP_UnmarshalBinary [] = Inl ErrShortRead"
| "FLAP_UnmarshalBinary (start # bs) =
     (if start \<noteq> 0x2A then Inl ErrBadFraming
      else (case bs of
              ch # s1 # s0 # l1 # l0 # rest \<Rightarrow>
                (let n = unat (Uint16 l1 l0) in
                 if length rest < n then Inl ErrShortRead
                 else Inr \<lparr>FLAP_Header = \<lparr>Channel = ch, SequenceNumber = Uint16 s1 s0,
                                            DataLength = Uint16 l1 l0\<rparr>,
                           FLAP_Data = take n rest\<rparr>)
            | _ \<Rightarrow> Inl ErrShortRead))"

subsection \<open>SNAC\<close>

text \<open>Modelled from the spec: the header of \<open>oscar.SNAC\<close> (section 4.4), family
  (uint16), subtype (uint16), flags (uint16), request id (uint32). The handler reads
  \<open>snac.Header.Family\<close>.\<close>

record SNACHeader =
  Family :: uint16
  Subtype :: uint16
  Flags :: uint16
  RequestID :: uint32

text \<open>Modelled from the spec: \<open>oscar.SNAC\<close> (section 4.4), the header and the payload.
  The handler writes \<open>snac.Data\<close>.\<close>

record SNAC =
  SNAC_Header :: SNACHeader
  SNAC_Data :: "byte list"

text \<open>Modelled from the spec: \<open>oscar.NewSNAC\<close>, a SNAC of the given family and subtype
  with no flags, request id 0 and an empty payload (section 4.4).\<close>

definition NewSNAC :: "uint16 \<Rightarrow> uint16 \<Rightarrow> SNAC" where
  "NewSNAC family subtype =
     \<lparr>SNAC_Header = \<lparr>Family = family, Subtype = subtype, Flags = 0, RequestID = 0\<rparr>,
      SNAC_Data = []\<rparr>"

text \<open>Modelled from the spec: the encoding of \<open>oscar.SNAC\<close> (section 4.4), the 10-byte
  header big-endian, then the payload.\<close>

definition SNAC_MarshalBinary :: "SNAC \<Rightarrow> byte list" where
  "SNAC_MarshalBinary s =
     PutUint16 (Family (SNAC_Header s)) @ PutUint16 (Subtype (SNAC_Header s)) @
     PutUint16 (Flags (SNAC_Header s)) @ PutUint32 (RequestID (SNAC_Header s)) @
     SNAC_Data s"

text \<open>Modelled from the spec: \<open>SNAC.UnmarshalBinary\<close> of package \<open>oscar\<close> (section
  4.4). It fails with \<open>ErrShortRead\<close> when the 10-byte header is truncated; the rest is
  the payload.\<close>

fun SNAC_UnmarshalBinary :: "byte list \<Rightarrow> error + SNAC" where
  "SNAC_UnmarshalBinary (f1 # f0 # t1 # t0 # g1 # g0 # r3 # r2 # r1 # r0 # rest) =
     Inr \<lparr>SNAC_Header = \<lparr>Family = Uint16 f1 f0, Subtype = Uint16 t1 t0,
                           Flags = Uint16 g1 g0, RequestID = Uint32 r3 r2 r1 r0\<rparr>,
          SNAC_Data = rest\<rparr>"
| "SNAC_UnmarshalBinary _ = Inl ErrShortRead"

section \<open>Package models\<close>

subsection \<open>Users\<close>

text \<open>Modelled from the spec: the status of \<open>models.User\<close> (section 3), one of Away,
  Online, Idle, DND, Invisible; the source of \<open>models.User\<close> is not part of the
  repository files at hand. \<open>main\<close> names \<open>models.UserStatusAway\<close>.\<close>

datatype UserStatus =
  UserStatusAway | UserStatusOnline | UserStatusIdle | UserStatusDnd | UserStatusInvisible

text \<open>Modelled from the spec: \<open>models.User\<close> (section 3), whose source is not part of
  the repository files at hand: screen name, email, hashed password, profile text, away
  message, status, last activity timestamp, verified flag. The handler reads
  \<open>user.ScreenName\<close> and writes \<open>user.LastActivityAt\<close>.\<close>

record User =
  ScreenName :: string
  Email :: string
  Password :: string
  Profile :: string
  AwayMessage :: string
  Status :: UserStatus
  LastActivityAt :: Time
  Verified :: bool

subsection \<open>Messages\<close>

text \<open>\<open>type Message struct\<close>: the row of table \<open>messages\<close>, primary key
  \<open>MessageID\<close>. \<open>CreatedAt\<close> and \<open>DeliveredAt\<close> are \<open>nullzero\<close>: the zero time
  stands for "unset".\<close>

record Message =
  MessageID :: uint64
  From :: string
  To :: string
  Contents :: string
  CreatedAt :: Time
  DeliveredAt :: Time

subsection \<open>The database\<close>

text \<open>The tables the code touches, each the list of its rows. \<open>failing\<close> says that the
  driver answers a statement with an error (connection lost, disk full); the statement
  then changes nothing.\<close>

record DB =
  users :: "User list"
  messages :: "Message list"
  failing :: bool

text \<open>\<open>InsertMessage\<close>: builds the message and inserts it. The insert fails when the
  driver fails or the primary key is taken. \<open>created_at\<close> is filled by the table's
  default \<open>current_timestamp\<close>, here \<open>now\<close>; the stored row is read back into the
  message (\<open>Exec(ctx, msg)\<close>).\<close>

definition InsertMessage ::
  "Time \<Rightarrow> DB \<Rightarrow> uint64 \<Rightarrow> string \<Rightarrow> string \<Rightarrow> string \<Rightarrow> error + (Message \<times> DB)" where
  "InsertMessage now d messageId from to contents =
     (let msg = \<lparr>MessageID = messageId, From = from, To = to, Contents = contents,
                 CreatedAt = zeroTime, DeliveredAt = zeroTime\<rparr>
      in if failing d \<or> messageId \<in> set (map MessageID (messages d))
         then Inl (Err ''could not update user'')
         else (let msg = msg\<lparr>CreatedAt := now\<rparr>
               in Inr (msg, d\<lparr>messages := messages d @ [msg]\<rparr>)))"

text \<open>\<open>MarkDelivered\<close>: assigns \<open>m.DeliveredAt = time.Now()\<close> first, whatever the field
  held, then updates the rows \<open>WHERE message_id = m.MessageID\<close>; the statement names no
  columns, so it writes every column of such a row from the struct. \<open>created_at\<close> is
  \<open>nullzero\<close> and \<open>notnull\<close>: a struct whose \<open>CreatedAt\<close> is the zero time writes NULL
  there, which the table refuses on a row that is written. The statement fails then, as it
  does when the driver fails, and changes nothing. The receiver is a pointer, so the caller
  sees the assignment also when the update fails: the result is the message as mutated,
  the database, and the error if any.\<close>

definition MarkDelivered :: "Time \<Rightarrow> DB \<Rightarrow> Message \<Rightarrow> Message \<times> DB \<times> error option" where
  "MarkDelivered now d m =
     (let m = m\<lparr>DeliveredAt := now\<rparr>
      in if failing d \<or>
            (CreatedAt m = zeroTime \<and> MessageID m \<in> set (map MessageID (messages d)))
         then (m, d, Some (Err ''could not mark message as updated''))
         else (m,
               d\<lparr>messages := map (\<lambda>row. if MessageID row = MessageID m then m else row)
                                 (messages d)\<rparr>,
               None))"

text \<open>Modelled from the spec: \<open>User.SetAway\<close> (section 4.6, "mark the user Away in
  persistence"), whose source is not part of the repository files at hand. As the older
  close handler does in its place (\<open>user.Status = models.UserStatusAway\<close>, then
  \<open>user.Update\<close>), it sets the status of the struct and updates the user's row.\<close>

definition SetAway :: "User \<Rightarrow> DB \<Rightarrow> User \<times> DB \<times> error option" where
  "SetAway user d =
     (let user = user\<lparr>Status := UserStatusAway\<rparr>
      in if failing d then (user, d, Some (Err ''could not update user''))
         else (user,
               d\<lparr>users := map (\<lambda>row. if ScreenName row = ScreenName user
                                        then row\<lparr>Status := UserStatusAway\<rparr> else row)
                              (users d)\<rparr>,
               None))"

text \<open>The statement \<open>main\<close> runs on start:
  \<open>UPDATE users SET status = Away WHERE status != Away\<close>.\<close>

definition resetAllAway :: "DB \<Rightarrow> error + DB" where
  "resetAllAway d =
     (if failing d then Inl (Err ''could not set all users as offline'')
      else Inr (d\<lparr>users := map (\<lambda>row. if Status row \<noteq> UserStatusAway
                                         then row\<lparr>Status := UserStatusAway\<rparr> else row)
                               (users d)\<rparr>))"

section \<open>Sessions, contexts and the world of the handler\<close>

text \<open>A \<open>*oscar.Session\<close> is a reference; the session objects live in a store.\<close>

type_synonym session_ref = nat

text \<open>Modelled from the spec: \<open>oscar.Session\<close> (sections 3 and 4.5), whose source is not
  part of the repository files at hand: the authenticated screen name (empty until
  authentication), the outbound sequence counter, the frames written to the connection
  (oldest first), and whether the connection has been closed.\<close>

record Session =
  Session_ScreenName :: string
  Sequence :: uint16
  Sent :: "FLAP list"
  Disconnected :: bool

text \<open>The values a \<open>context.Context\<close> carries for the handler: the session and the
  authenticated user, each possibly absent.\<close>

record Context =
  ctx_session :: "session_ref option"
  ctx_user :: "User option"

text \<open>Modelled from the spec: \<open>oscar.SessionFromContext\<close> (section 4.7,
  \<open>session := SessionFromContext(ctx)\<close>), whose source is not part of the repository
  files at hand. The handler tests its error.\<close>

definition SessionFromContext :: "Context \<Rightarrow> error + session_ref" where
  "SessionFromContext ctx =
     (case ctx_session ctx of None \<Rightarrow> Inl (Err ''no session in context'') | Some s \<Rightarrow> Inr s)"

text \<open>Modelled from the spec: \<open>models.UserFromContext\<close> (section 4.6, the authenticated
  user rides on the context), whose source is not part of the repository files at hand.
  The handler tests the result against nil.\<close>

definition UserFromContext :: "Context \<Rightarrow> User option" where
  "UserFromContext ctx = ctx_user ctx"

text \<open>Modelled from the spec: \<open>models.NewContextWithUser\<close> (section 4.6), whose source
  is not part of the repository files at hand: the context with the user in it.\<close>

definition NewContextWithUser :: "Context \<Rightarrow> User \<Rightarrow> Context" where
  "NewContextWithUser ctx user = ctx\<lparr>ctx_user := Some user\<rparr>"

text \<open>The level of a log call of the closures: \<open>Debug\<close>, \<open>Info\<close> or \<open>Error\<close>.\<close>

datatype Level = Debug | Info | Error

text \<open>Everything the closures of \<open>main\<close> share: the database, the session objects, the
  session manager, the presence channel \<open>onlineCh\<close> (the users pushed, oldest first) and
  the log (the calls to the loggers, oldest first).\<close>

record World =
  db :: DB
  sessions :: "session_ref \<Rightarrow> Session"
  sessionManager :: "string \<rightharpoonup> session_ref"
  onlineCh :: "User list"
  logged :: "(Level \<times> string) list"

text \<open>A call to a logger (\<open>logger\<close> or \<open>session.Logger\<close>) with its message.\<close>

definition log_write :: "Level \<Rightarrow> string \<Rightarrow> World \<Rightarrow> World" where
  "log_write level msg w = w\<lparr>logged := logged w @ [(level, msg)]\<rparr>"

text \<open>Modelled from the spec: \<open>Session.Send\<close> of package \<open>oscar\<close> (section 4.5). It
  assigns the next sequence number (incremented before the write, wrapping at \<open>2^16\<close>),
  fills in the payload length and writes the frame; after \<open>Disconnect\<close> it is a no-op.
  A write to a connection that is open is taken to succeed.\<close>

definition Send :: "session_ref \<Rightarrow> FLAP \<Rightarrow> World \<Rightarrow> World" where
  "Send s flap w =
     (let ss = sessions w s
      in if Disconnected ss then w
         else (let n = Sequence ss + 1;
                   frame = flap\<lparr>FLAP_Header := (FLAP_Header flap)
                              \<lparr>SequenceNumber := n,
                               DataLength := of_nat (length (FLAP_Data flap))\<rparr>\<rparr>
               in w\<lparr>sessions := (sessions w)(s := ss\<lparr>Sequence := n, Sent := Sent ss @ [frame]\<rparr>)\<rparr>))"

text \<open>Modelled from the spec: \<open>Session.Disconnect\<close> of package \<open>oscar\<close> (section
  4.5). It closes the connection and is idempotent.\<close>

definition Disconnect :: "session_ref \<Rightarrow> World \<Rightarrow> World" where
  "Disconnect s w = w\<lparr>sessions := (sessions w)(s := (sessions w s)\<lparr>Disconnected := True\<rparr>)\<rparr>"

text \<open>The assignment \<open>session.ScreenName = user.ScreenName\<close> of the handler.\<close>

definition set_ScreenName :: "session_ref \<Rightarrow> string \<Rightarrow> World \<Rightarrow> World" where
  "set_ScreenName s name w =
     w\<lparr>sessions := (sessions w)(s := (sessions w s)\<lparr>Session_ScreenName := name\<rparr>)\<rparr>"

text \<open>The session manager that \<open>NewSessionManager\<close> makes is not part of the repository
  files at hand; the spec (section 4.10) gives it as a map from screen name to session,
  keyed by the canonical form (lowercased, spaces stripped), with \<open>Set\<close>, \<open>Get\<close> and
  \<open>Remove\<close>. The map is the field \<open>sessionManager\<close> of the world.\<close>

text \<open>Modelled from the spec: lowercasing of a letter, for the canonical form of a screen
  name (section 4.10, glossary); the session manager's source is missing.\<close>

definition toLower :: "char \<Rightarrow> char" where
  "toLower c =
     (let n = (of_char c :: nat) in if 65 \<le> n \<and> n \<le> 90 then char_of (n + 32) else c)"

text \<open>Modelled from the spec: the canonical form of a screen name, lowercased, spaces
  stripped (section 4.10, glossary); the session manager's source is missing.\<close>

definition canonical :: "string \<Rightarrow> string" where
  "canonical name = map toLower (filter (\<lambda>c. c \<noteq> CHR '' '') name)"

text \<open>Modelled from the spec: \<open>SessionManager.SetSession\<close> (section 4.10), whose source
  is missing. \<open>Set\<close> on a key that is present closes the previous session; the handler
  stores its own session again on every frame, so the previous session is read as a
  session other than the one being stored.\<close>

definition SetSession :: "string \<Rightarrow> session_ref \<Rightarrow> World \<Rightarrow> World" where
  "SetSession name s w =
     (let w = (case sessionManager w (canonical name) of
                 None \<Rightarrow> w
               | Some old \<Rightarrow> if old \<noteq> s then Disconnect old w else w)
      in w\<lparr>sessionManager := (sessionManager w)(canonical name \<mapsto> s)\<rparr>)"

text \<open>Modelled from the spec: \<open>SessionManager.GetSession\<close> (section 4.10, \<open>Get\<close>),
  whose source is missing.\<close>

definition GetSession :: "World \<Rightarrow> string \<Rightarrow> session_ref option" where
  "GetSession w name = sessionManager w (canonical name)"

text \<open>Modelled from the spec: \<open>SessionManager.RemoveSession\<close> (section 4.10,
  \<open>Remove\<close>), whose source is missing.\<close>

definition RemoveSession :: "string \<Rightarrow> World \<Rightarrow> World" where
  "RemoveSession name w = w\<lparr>sessionManager := (sessionManager w)(canonical name := None)\<rparr>"

section \<open>The services and the handler of \<open>main\<close>\<close>

text \<open>The services \<open>main\<close> registers, by the name of their type.\<close>

datatype Service =
  GenericServiceControls | LocationServices | BuddyListManagement | ICBM |
  AuthorizationRegistrationService | AlertService

text \<open>The service manager is a map from family to service
  (\<open>var services map[uint16]Service\<close> in \<open>main.go\<close>).\<close>

type_synonym ServiceManager = "uint16 \<rightharpoonup> Service"

text \<open>The empty service manager (\<open>services = make(map[uint16]Service)\<close> in \<open>main.go\<close>,
  \<open>NewServiceManager()\<close> in the later \<open>main\<close>).\<close>

definition NewServiceManager :: ServiceManager where
  "NewServiceManager = Map.empty"

text \<open>\<open>RegisterService\<close>: \<open>services[family] = service\<close>.\<close>

definition RegisterService :: "uint16 \<Rightarrow> Service \<Rightarrow> ServiceManager \<Rightarrow> ServiceManager" where
  "RegisterService family service sm = sm(family \<mapsto> service)"

text \<open>\<open>GetService\<close>: the lookup \<open>service, ok := services[family]\<close>.\<close>

definition GetService :: "ServiceManager \<Rightarrow> uint16 \<Rightarrow> Service option" where
  "GetService sm family = sm family"

text \<open>The calls of \<open>serviceManager.RegisterService\<close> in \<open>main\<close>, in their order.\<close>

definition registrations :: "(uint16 \<times> Service) list" where
  "registrations =
     [(0x01, GenericServiceControls), (0x02, LocationServices), (0x03, BuddyListManagement),
      (0x04, ICBM), (0x17, AuthorizationRegistrationService), (0x18, AlertService)]"

text \<open>The service manager these calls build.\<close>

definition serviceManager :: ServiceManager where
  "serviceManager =
     fold (\<lambda>(family, service) sm. RegisterService family service sm) registrations
       NewServiceManager"

text \<open>Modelled from the spec: an entry of the table \<open>services.ServiceVersions\<close>, whose
  type is not part of the repository files at hand: a family and its version (section
  4.9, the versions of each family). The handler reads \<open>service.Family\<close>.\<close>

record ServiceVersion =
  SV_Family :: uint16
  SV_Version :: uint16

text \<open>Modelled from the spec: the content of the table \<open>services.ServiceVersions\<close>, which
  is not part of the repository files at hand. Section 8, scenario 4, gives the families
  advertised after cookie validation as \<open>00 01 00 02 00 03 00 04 00 17 00 18\<close>; the spec
  says nothing of the versions, which the handler does not read.\<close>

definition ServiceVersions_table :: "ServiceVersion list" where
  "ServiceVersions_table =
     map (\<lambda>family. \<lparr>SV_Family = family, SV_Version = 1\<rparr>) [0x01, 0x02, 0x03, 0x04, 0x17, 0x18]"

text \<open>What the closures of \<open>main\<close> take from their surroundings: the configured log
  level, the clock, and the parts of package \<open>services\<close> whose source is not part of the
  repository files at hand, taken as they come: the table \<open>ServiceVersions\<close> (a slice,
  ranged over in order), \<open>AuthenticateFLAPCookie\<close> (which answers an error with the
  screen name, or the user) and each service's \<open>HandleSNAC\<close> (which answers a context
  and possibly an error). Both may write to the database and to the session.\<close>

record Handler_env =
  LogLevel :: string
  now :: Time
  ServiceVersions :: "ServiceVersion list"
  AuthenticateFLAPCookie :: "World \<Rightarrow> Context \<Rightarrow> FLAP \<Rightarrow> World \<times> ((error \<times> string) + User)"
  services :: ServiceManager
  HandleSNAC :: "Service \<Rightarrow> World \<Rightarrow> Context \<Rightarrow> SNAC \<Rightarrow> World \<times> Context \<times> error option"

text \<open>\<open>handleCloseFn\<close>. The session argument is only logged; the session that is
  disconnected is the one of the context.\<close>

definition handleCloseFn :: "World \<Rightarrow> Context \<Rightarrow> session_ref \<Rightarrow> World" where
  "handleCloseFn w ctx session =
     (let w = log_write Info ''Disconnected'' w
      in case UserFromContext ctx of
           None \<Rightarrow> w
         | Some user \<Rightarrow>
             (case SetAway user (db w) of
                (user, d, err) \<Rightarrow>
                  (let w = w\<lparr>db := d\<rparr>;
                       w = (case err of
                              Some e \<Rightarrow> log_write Error ''Could not set user as away'' w
                            | None \<Rightarrow> w);
                       w = log_write Info ''Disconnecting user'' w;
                       w = w\<lparr>onlineCh := onlineCh w @ [user]\<rparr>
                   in case SessionFromContext ctx of
                        Inr session \<Rightarrow> RemoveSession (ScreenName user) (Disconnect session w)
                      | Inl e \<Rightarrow> w)))"

text \<open>\<open>handleFn\<close>, first block: what the handler does on every frame before it looks at
  the channel (the \<open>if user := models.UserFromContext(ctx); user != nil\<close> statement).\<close>

definition handleFn_received ::
  "Handler_env \<Rightarrow> World \<Rightarrow> Context \<Rightarrow> session_ref \<Rightarrow> FLAP \<Rightarrow> World \<times> Context" where
  "handleFn_received env w ctx session flap =
     (case UserFromContext ctx of
        Some user \<Rightarrow>
          (let w = (if LogLevel env = ''DEBUG'' then log_write Debug ''RECV'' w else w);
               user = user\<lparr>LastActivityAt := now env\<rparr>;
               ctx = NewContextWithUser ctx user;
               w = set_ScreenName session (ScreenName user) w;
               w = SetSession (ScreenName user) session w
           in (w, ctx))
      | None \<Rightarrow>
          ((if LogLevel env = ''DEBUG'' then log_write Debug ''RECV'' w else w), ctx))"

text \<open>\<open>handleFn\<close>, second block: the branches on \<open>flap.Header.Channel\<close>.\<close>

definition handleFn_channel ::
  "Handler_env \<Rightarrow> World \<Rightarrow> Context \<Rightarrow> session_ref \<Rightarrow> FLAP \<Rightarrow> World \<times> Context" where
  "handleFn_channel env w ctx session flap =
     (if Channel (FLAP_Header flap) = 1 then
        (if FLAP_Data flap = [0, 0, 0, 1] then (w, ctx)
         else (case AuthenticateFLAPCookie env w ctx flap of
                 (w, Inl (err, screenName)) \<Rightarrow>
                   (log_write Error ''Could not authenticate user cookie'' w, ctx)
               | (w, Inr user) \<Rightarrow>
                   (let w = log_write Info ''Authenticated user'' w;
                        w = set_ScreenName session (ScreenName user) w;
                        ctx = NewContextWithUser ctx user;
                        servicesSnac = NewSNAC 0x1 0x3;
                        servicesSnac =
                          fold (\<lambda>service snac.
                                  snac\<lparr>SNAC_Data := WriteUint16 (SNAC_Data snac) (SV_Family service)\<rparr>)
                            (ServiceVersions env) servicesSnac;
                        servicesFlap = NewFLAP 2;
                        servicesFlap =
                          servicesFlap\<lparr>FLAP_Data :=
                            Write (FLAP_Data servicesFlap) (SNAC_MarshalBinary servicesSnac)\<rparr>;
                        w = Send session servicesFlap w
                    in (w, ctx))))
      else if Channel (FLAP_Header flap) = 2 then
        (case SNAC_UnmarshalBinary (FLAP_Data flap) of
           Inl err \<Rightarrow>
             (let w = log_write Error ''could not unmarshal FLAP data'' w;
                  w = Disconnect session w;
                  w = handleCloseFn w ctx session
              in (w, ctx))
         | Inr snac \<Rightarrow>
             (case GetService (services env) (Family (SNAC_Header snac)) of
                Some service \<Rightarrow>
                  (case HandleSNAC env service w ctx snac of
                     (w, newCtx, Some err) \<Rightarrow>
                       (let w = log_write Error ''error handling SNAC'' w;
                            w = Disconnect session w;
                            w = handleCloseFn w ctx session
                        in (w, newCtx))
                   | (w, newCtx, None) \<Rightarrow> (w, newCtx))
              | None \<Rightarrow> (w, ctx)))
      else if Channel (FLAP_Header flap) = 4 then (handleCloseFn w ctx session, ctx)
      else if Channel (FLAP_Header flap) = 5 then (w, ctx)
      else (log_write Info ''unhandled channel message'' w, ctx))"

text \<open>\<open>handleFn\<close>: without a session in the context it logs and returns; otherwise the
  two blocks run one after the other.\<close>

definition handleFn :: "Handler_env \<Rightarrow> World \<Rightarrow> Context \<Rightarrow> FLAP \<Rightarrow> World \<times> Context" where
  "handleFn env w ctx flap =
     (case SessionFromContext ctx of
        Inl err \<Rightarrow> (log_write Error ''no session in context'' w, ctx)
      | Inr session \<Rightarrow>
          (case handleFn_received env w ctx session flap of
             (w, ctx) \<Rightarrow> handleFn_channel env w ctx session flap))"

section \<open>The process: \<open>main\<close>\<close>

text \<open>The fields of the configuration that \<open>main\<close> reads.\<close>

record Config =
  AppConfig_LogLevel :: string
  AppConfig_LogStyle :: string
  AppConfig_Metrics_Addr :: string
  OscarConfig_Addr :: string
  OscarConfig_BOS :: string

text \<open>What \<open>flag.Parse\<close> makes of the command line. The flag set of the process exits
  on error: on a malformed command line (an unknown flag, \<open>--config\<close> without a value)
  \<open>flag.Parse\<close> prints the usage and exits with code 2, on \<open>-h\<close> or \<open>-help\<close> it prints
  the usage and exits with code 0. Otherwise it returns, and \<open>*configPath\<close> is the value
  given to \<open>--config\<close>, empty when the flag is not given.\<close>

datatype FlagParse = Parsed string | HelpRequested | Malformed

text \<open>What the surroundings answer while \<open>main\<close> starts: the outcome of \<open>flag.Parse\<close>
  and the results of the calls \<open>config.FromFile(*configPath)\<close>, \<open>level.UnmarshalText\<close>
  on the configured log level, \<open>db.Connect\<close> and \<open>net.Listen\<close> on the configured
  address.\<close>

record Process_env =
  flags :: FlagParse
  FromFile :: "error + Config"
  UnmarshalText :: "error option"
  Connect :: "error + DB"
  Listen :: "error option"

text \<open>The process once it listens: its configuration, its database and the number of
  connections accepted so far.\<close>

record Process =
  conf :: Config
  proc_db :: DB
  accepted :: nat

text \<open>\<open>main\<close> up to the accept loop. \<open>Inl code\<close> is an exit of the process with that
  code: the exits inside \<open>flag.Parse\<close>, \<open>os.Exit(1)\<close>, and \<open>log.Fatalf\<close>, which exits
  with code 1.\<close>

definition startup :: "Process_env \<Rightarrow> nat + Process" where
  "startup env =
     (case flags env of
        HelpRequested \<Rightarrow> Inl 0
      | Malformed \<Rightarrow> Inl 2
      | Parsed configPath \<Rightarrow>
          (if configPath = [] then Inl 1
           else (case FromFile env of
                   Inl err \<Rightarrow> Inl 1
                 | Inr c \<Rightarrow>
                     (case UnmarshalText env of
                        Some err \<Rightarrow> Inl 1
                      | None \<Rightarrow>
                          (case Connect env of
                             Inl err \<Rightarrow> Inl 1
                           | Inr d \<Rightarrow>
                               (case resetAllAway d of
                                  Inl err \<Rightarrow> Inl 1
                                | Inr d \<Rightarrow>
                                    (case Listen env of
                                       Some err \<Rightarrow> Inl 1
                                     | None \<Rightarrow>
                                         Inr \<lparr>conf = c, proc_db = d, accepted = 0\<rparr>)))))))"

text \<open>What happens to the listening process: \<open>listener.Accept\<close> returns a connection or
  an error, or one of the signals of \<open>signal.Notify\<close> arrives.\<close>

datatype Event = Accepted | AcceptError | ShutdownSignal

text \<open>The accept loop and the signal goroutine. A connection is handed to a goroutine
  and the loop goes on; an accept error is \<open>os.Exit(1)\<close>; on a signal the goroutine
  closes the channels, logs "Shutting down" and calls \<open>os.Exit(1)\<close>. The result is the
  process at the end and the exit code, \<open>None\<close> while the process still runs.\<close>

fun serve :: "Process \<Rightarrow> Event list \<Rightarrow> Process \<times> nat option" where
  "serve p [] = (p, None)"
| "serve p (Accepted # evs) = serve (p\<lparr>accepted := accepted p + 1\<rparr>) evs"
| "serve p (AcceptError # evs) = (p, Some 1)"
| "serve p (ShutdownSignal # evs) = (p, Some 1)"

definition main :: "Process_env \<Rightarrow> Event list \<Rightarrow> nat option" where
  "main env evs =
     (case startup env of
        Inl code \<Rightarrow> Some code
      | Inr p \<Rightarrow> snd (serve p evs))"

section \<open>The session registry of \<open>main.go\<close>\<close>

text \<open>\<open>var sessions map[string]*oscar.Session\<close> with \<open>getSession\<close>, and the assignment
  \<open>sessions[user.Username] = session\<close> of that file's \<open>handleFn\<close>. The key is the string
  as given.\<close>

type_synonym sessions_map = "string \<rightharpoonup> session_ref"

definition getSession :: "sessions_map \<Rightarrow> string \<Rightarrow> session_ref option" where
  "getSession sm username = (case sm username of Some s \<Rightarrow> Some s | None \<Rightarrow> None)"

definition storeSession :: "sessions_map \<Rightarrow> string \<Rightarrow> session_ref \<Rightarrow> sessions_map" where
  "storeSession sm username session = sm(username \<mapsto> session)"

section \<open>Codec round trip\<close>

lemma Uint16_PutUint16: "Uint16 (ucast (drop_bit 8 v)) (ucast v) = v"
  unfolding Uint16_def
  by (rule bit_word_eqI) (auto simp: bit_simps)

lemma Uint32_PutUint32:
  "Uint32 (ucast (drop_bit 24 v)) (ucast (drop_bit 16 v)) (ucast (drop_bit 8 v)) (ucast v) = v"
  unfolding Uint32_def
  apply (rule bit_word_eqI)
  apply (auto simp: bit_simps)
  subgoal for n by (cases "n < 16") auto
  subgoal for n by (cases "n < 16"; cases "n < 24") auto
  done

lemma unat_of_nat_len16: "n < 65536 \<Longrightarrow> unat (of_nat n :: uint16) = n"
  by (simp add: unat_of_nat)

lemma FLAP_roundtrip:
  assumes "valid_FLAP f"
  shows "FLAP_UnmarshalBinary (FLAP_MarshalBinary f) = Inr f"
proof -
  from assms have len: "unat (of_nat (length (FLAP_Data f)) :: uint16) = length (FLAP_Data f)"
    and dl: "DataLength (FLAP_Header f) = of_nat (length (FLAP_Data f))"
    by (simp_all add: valid_FLAP_def unat_of_nat_len16)
  have "FLAP_UnmarshalBinary (FLAP_MarshalBinary f) =
        Inr \<lparr>FLAP_Header = \<lparr>Channel = Channel (FLAP_Header f),
                             SequenceNumber = SequenceNumber (FLAP_Header f),
                             DataLength = of_nat (length (FLAP_Data f))\<rparr>,
             FLAP_Data = FLAP_Data f\<rparr>"
    by (simp add: FLAP_MarshalBinary_def PutUint16_def Uint16_PutUint16 len)
  also have "\<dots> = Inr f"
    using dl by simp
  finally show ?thesis .
qed

lemma SNAC_roundtrip: "SNAC_UnmarshalBinary (SNAC_MarshalBinary s) = Inr s"
  by (simp add: SNAC_MarshalBinary_def PutUint16_def PutUint32_def Uint16_PutUint16
      Uint32_PutUint32)

lemma TLV_step:
  assumes "valid_TLV t"
  shows "UnmarshalTLVs (TLV_MarshalBinary t @ bs) =
         (case UnmarshalTLVs bs of Inl e \<Rightarrow> Inl e | Inr ts \<Rightarrow> Inr (t # ts))"
proof -
  from assms have len: "unat (of_nat (length (Value t)) :: uint16) = length (Value t)"
    by (simp add: valid_TLV_def unat_of_nat_len16)
  show ?thesis
    by (simp add: TLV_MarshalBinary_def PutUint16_def Uint16_PutUint16 len split: sum.split)
qed

lemma TLVs_roundtrip:
  "\<forall>t \<in> set ts. valid_TLV t \<Longrightarrow> UnmarshalTLVs (MarshalTLVs ts) = Inr ts"
proof (induction ts)
  case Nil
  show ?case by (simp add: MarshalTLVs_def)
next
  case (Cons t ts)
  then have ih: "UnmarshalTLVs (MarshalTLVs ts) = Inr ts" and v: "valid_TLV t"
    by simp_all
  have "MarshalTLVs (t # ts) = TLV_MarshalBinary t @ MarshalTLVs ts"
    by (simp add: MarshalTLVs_def)
  then show ?case
    by (simp add: TLV_step [OF v] ih)
qed

text \<open>C6. Decoding the encoding of a valid FLAP, of a SNAC and of a list of valid TLVs
  gives the value back. A FLAP is valid when its payload fits the 16-bit length field and
  the header carries that length; a TLV when its value fits the 16-bit length field.\<close>

theorem codec_roundtrip:
  "(valid_FLAP f \<longrightarrow> FLAP_UnmarshalBinary (FLAP_MarshalBinary f) = Inr f) \<and>
   SNAC_UnmarshalBinary (SNAC_MarshalBinary s) = Inr s \<and>
   ((\<forall>t \<in> set ts. valid_TLV t) \<longrightarrow> UnmarshalTLVs (MarshalTLVs ts) = Inr ts)"
  using FLAP_roundtrip SNAC_roundtrip TLVs_roundtrip by blast

theorem codec_roundtrip_witness:
  "valid_FLAP \<lparr>FLAP_Header = \<lparr>Channel = 1, SequenceNumber = 1, DataLength = 4\<rparr>,
               FLAP_Data = [0, 0, 0, 1]\<rparr> \<and>
   FLAP_UnmarshalBinary
     (FLAP_MarshalBinary \<lparr>FLAP_Header = \<lparr>Channel = 1, SequenceNumber = 1, DataLength = 4\<rparr>,
                          FLAP_Data = [0, 0, 0, 1]\<rparr>) =
     Inr \<lparr>FLAP_Header = \<lparr>Channel = 1, SequenceNumber = 1, DataLength = 4\<rparr>,
          FLAP_Data = [0, 0, 0, 1]\<rparr> \<and>
   SNAC_UnmarshalBinary
     (SNAC_MarshalBinary
        \<lparr>SNAC_Header = \<lparr>Family = 0x17, Subtype = 0x06, Flags = 0x8000, RequestID = 0x01020304\<rparr>,
         SNAC_Data = [7, 8]\<rparr>) =
     Inr \<lparr>SNAC_Header = \<lparr>Family = 0x17, Subtype = 0x06, Flags = 0x8000, RequestID = 0x01020304\<rparr>,
          SNAC_Data = [7, 8]\<rparr> \<and>
   valid_TLV \<lparr>Type = 1, Value = [0x61, 0x62]\<rparr> \<and> valid_TLV \<lparr>Type = 6, Value = []\<rparr> \<and>
   UnmarshalTLVs (MarshalTLVs [\<lparr>Type = 1, Value = [0x61, 0x62]\<rparr>, \<lparr>Type = 6, Value = []\<rparr>]) =
     Inr [\<lparr>Type = 1, Value = [0x61, 0x62]\<rparr>, \<lparr>Type = 6, Value = []\<rparr>]"
  using codec_roundtrip
    [of "\<lparr>FLAP_Header = \<lparr>Channel = 1, SequenceNumber = 1, DataLength = 4\<rparr>,
          FLAP_Data = [0, 0, 0, 1]\<rparr>"
        "\<lparr>SNAC_Header = \<lparr>Family = 0x17, Subtype = 0x06, Flags = 0x8000, RequestID = 0x01020304\<rparr>,
          SNAC_Data = [7, 8]\<rparr>"
        "[\<lparr>Type = 1, Value = [0x61, 0x62]\<rparr>, \<lparr>Type = 6, Value = []\<rparr>]"]
  by (simp add: valid_FLAP_def valid_TLV_def)

section \<open>Messages\<close>

lemma MarkDelivered_ids:
  "map MessageID (map (\<lambda>row. if MessageID row = MessageID m then m else row) rows) =
   map MessageID rows"
  by (induction rows) auto

lemma same_id_same_row:
  "distinct (map MessageID rows) \<Longrightarrow> m \<in> set rows \<Longrightarrow> row \<in> set rows \<Longrightarrow>
   MessageID row = MessageID m \<Longrightarrow> row = m"
  by (auto simp: distinct_map dest: inj_onD)

lemma MarkDelivered_result:
  "MarkDelivered t d m =
     (m\<lparr>DeliveredAt := t\<rparr>,
      if failing d \<or> (CreatedAt m = zeroTime \<and> MessageID m \<in> set (map MessageID (messages d)))
      then d
      else d\<lparr>messages := map (\<lambda>row. if MessageID row = MessageID m
                                      then m\<lparr>DeliveredAt := t\<rparr> else row) (messages d)\<rparr>,
      if failing d \<or> (CreatedAt m = zeroTime \<and> MessageID m \<in> set (map MessageID (messages d)))
      then Some (Err ''could not mark message as updated'') else None)"
  by (simp add: MarkDelivered_def Let_def)

text \<open>C9, as the code has it. \<open>MarkDelivered\<close> sets the delivered-at timestamp of the
  message to the current time, whatever the field held before, and leaves MessageID, From,
  To, Contents and CreatedAt as they were. The update is accepted when the driver answers
  and the struct does not write a zero CreatedAt to a row. When it is accepted, every
  stored row with the message's id becomes the message so stamped and every other row
  stays as it is; for a message that is its own stored row, under a unique id, that row
  changes in its delivered-at timestamp only. When it is refused, the database is
  unchanged. Either way the table keeps its rows and their ids, and \<open>InsertMessage\<close>
  only appends a row: no message is deleted. Nothing makes the timestamp be set only
  once.\<close>

theorem MarkDelivered_frame:
  "(MarkDelivered t d m = (m', d', e) \<longrightarrow>
      DeliveredAt m' = t \<and> MessageID m' = MessageID m \<and> From m' = From m \<and> To m' = To m \<and>
      Contents m' = Contents m \<and> CreatedAt m' = CreatedAt m \<and>
      (e = None \<longleftrightarrow>
         \<not> failing d \<and>
         (CreatedAt m \<noteq> zeroTime \<or> MessageID m \<notin> set (map MessageID (messages d)))) \<and>
      (e = None \<longrightarrow>
         messages d' =
           map (\<lambda>row. if MessageID row = MessageID m then m\<lparr>DeliveredAt := t\<rparr> else row)
             (messages d)) \<and>
      (e = None \<and> m \<in> set (messages d) \<and> distinct (map MessageID (messages d)) \<longrightarrow>
         messages d' =
           map (\<lambda>row. if row = m then row\<lparr>DeliveredAt := t\<rparr> else row) (messages d)) \<and>
      (e \<noteq> None \<longrightarrow> d' = d) \<and>
      map MessageID (messages d') = map MessageID (messages d) \<and>
      (\<forall>row \<in> set (messages d). MessageID row \<noteq> MessageID m \<longrightarrow> row \<in> set (messages d')) \<and>
      users d' = users d \<and> failing d' = failing d) \<and>
   (InsertMessage t0 d0 i sender recipient contents = Inr (msg, d1) \<longrightarrow>
      messages d1 = messages d0 @ [msg] \<and> DeliveredAt msg = zeroTime \<and> users d1 = users d0)"
proof (intro conjI impI)
  define refused where "refused \<longleftrightarrow> failing d \<or>
    (CreatedAt m = zeroTime \<and> MessageID m \<in> set (map MessageID (messages d)))"
  define written where "written =
    map (\<lambda>row. if MessageID row = MessageID m then m\<lparr>DeliveredAt := t\<rparr> else row) (messages d)"
  assume md: "MarkDelivered t d m = (m', d', e)"
  then have m': "m' = m\<lparr>DeliveredAt := t\<rparr>"
    and d': "d' = (if refused then d else d\<lparr>messages := written\<rparr>)"
    and e: "e = (if refused then Some (Err ''could not mark message as updated'') else None)"
    unfolding refused_def written_def by (simp_all add: MarkDelivered_result)
  from m' show "DeliveredAt m' = t" "MessageID m' = MessageID m" "From m' = From m"
    "To m' = To m" "Contents m' = Contents m" "CreatedAt m' = CreatedAt m"
    by simp_all
  from e have accepted: "e = None \<longleftrightarrow> \<not> refused"
    by simp
  then show "e = None \<longleftrightarrow>
      \<not> failing d \<and>
      (CreatedAt m \<noteq> zeroTime \<or> MessageID m \<notin> set (map MessageID (messages d)))"
    unfolding refused_def by blast
  have stored: "messages d' = written" if "e = None"
    using that accepted d' by simp
  then show "messages d' =
      map (\<lambda>row. if MessageID row = MessageID m then m\<lparr>DeliveredAt := t\<rparr> else row)
        (messages d)" if "e = None"
    using that unfolding written_def by simp
  show "messages d' =
      map (\<lambda>row. if row = m then row\<lparr>DeliveredAt := t\<rparr> else row) (messages d)"
    if a: "e = None \<and> m \<in> set (messages d) \<and> distinct (map MessageID (messages d))"
  proof -
    have "written =
        map (\<lambda>row. if row = m then row\<lparr>DeliveredAt := t\<rparr> else row) (messages d)"
      unfolding written_def using a by (intro map_cong refl) (auto dest: same_id_same_row)
    with stored a show ?thesis by simp
  qed
  show "d' = d" if "e \<noteq> None"
    using that accepted d' by simp
  have ids: "map MessageID written = map MessageID (messages d)"
    unfolding written_def
    using MarkDelivered_ids [of "m\<lparr>DeliveredAt := t\<rparr>" "messages d"] by simp
  from d' ids show "map MessageID (messages d') = map MessageID (messages d)"
    by (cases refused) simp_all
  from d' show "users d' = users d" "failing d' = failing d"
    by (cases refused; simp)+
  from d' show "\<forall>row \<in> set (messages d). MessageID row \<noteq> MessageID m \<longrightarrow> row \<in> set (messages d')"
    unfolding written_def by (cases refused) auto
next
  assume ins: "InsertMessage t0 d0 i sender recipient contents = Inr (msg, d1)"
  then show "messages d1 = messages d0 @ [msg]" "DeliveredAt msg = zeroTime" "users d1 = users d0"
    by (auto simp: InsertMessage_def Let_def split: if_splits)
qed

theorem MarkDelivered_frame_witness:
  "MarkDelivered 10 \<lparr>users = [], messages = [\<lparr>MessageID = 1, From = ''alice'', To = ''bob'', Contents = ''hi'',
      CreatedAt = 5, DeliveredAt = 0\<rparr>], failing = False\<rparr>
     \<lparr>MessageID = 1, From = ''alice'', To = ''bob'', Contents = ''hi'',
      CreatedAt = 5, DeliveredAt = 0\<rparr> =
   (\<lparr>MessageID = 1, From = ''alice'', To = ''bob'', Contents = ''hi'',
      CreatedAt = 5, DeliveredAt = 10\<rparr>,
    \<lparr>users = [], messages = [\<lparr>MessageID = 1, From = ''alice'', To = ''bob'', Contents = ''hi'',
      CreatedAt = 5, DeliveredAt = 10\<rparr>], failing = False\<rparr>,
    None) \<and>
   MarkDelivered 10 \<lparr>users = [], messages = [\<lparr>MessageID = 1, From = ''alice'', To = ''bob'', Contents = ''hi'',
      CreatedAt = 5, DeliveredAt = 0\<rparr>], failing = False\<rparr>
     \<lparr>MessageID = 1, From = ''alice'', To = ''bob'', Contents = ''hi'',
      CreatedAt = 0, DeliveredAt = 0\<rparr> =
   (\<lparr>MessageID = 1, From = ''alice'', To = ''bob'', Contents = ''hi'',
      CreatedAt = 0, DeliveredAt = 10\<rparr>,
    \<lparr>users = [], messages = [\<lparr>MessageID = 1, From = ''alice'', To = ''bob'', Contents = ''hi'',
      CreatedAt = 5, DeliveredAt = 0\<rparr>], failing = False\<rparr>,
    Some (Err ''could not mark message as updated'')) \<and>
   InsertMessage 5 \<lparr>users = [], messages = [], failing = False\<rparr> 1 ''alice'' ''bob'' ''hi'' =
     Inr (\<lparr>MessageID = 1, From = ''alice'', To = ''bob'', Contents = ''hi'',
      CreatedAt = 5, DeliveredAt = 0\<rparr>,
          \<lparr>users = [], messages = [\<lparr>MessageID = 1, From = ''alice'', To = ''bob'', Contents = ''hi'',
      CreatedAt = 5, DeliveredAt = 0\<rparr>], failing = False\<rparr>)"
  using
    MarkDelivered_frame
      [where t = 10 and d = "\<lparr>users = [], messages = [\<lparr>MessageID = 1, From = ''alice'', To = ''bob'', Contents = ''hi'',
      CreatedAt = 5, DeliveredAt = 0\<rparr>], failing = False\<rparr>"
         and m = "\<lparr>MessageID = 1, From = ''alice'', To = ''bob'', Contents = ''hi'',
      CreatedAt = 5, DeliveredAt = 0\<rparr>"
         and m' = "\<lparr>MessageID = 1, From = ''alice'', To = ''bob'', Contents = ''hi'',
      CreatedAt = 5, DeliveredAt = 10\<rparr>"
         and d' = "\<lparr>users = [], messages = [\<lparr>MessageID = 1, From = ''alice'', To = ''bob'', Contents = ''hi'',
      CreatedAt = 5, DeliveredAt = 10\<rparr>], failing = False\<rparr>"
         and e = None and ?t0.0 = 5
         and ?d0.0 = "\<lparr>users = [], messages = [], failing = False\<rparr>"
         and i = 1 and sender = "''alice''" and recipient = "''bob''" and contents = "''hi''"
         and msg = "\<lparr>MessageID = 1, From = ''alice'', To = ''bob'', Contents = ''hi'',
      CreatedAt = 5, DeliveredAt = 0\<rparr>"
         and ?d1.0 = "\<lparr>users = [], messages = [\<lparr>MessageID = 1, From = ''alice'', To = ''bob'', Contents = ''hi'',
      CreatedAt = 5, DeliveredAt = 0\<rparr>], failing = False\<rparr>"]
    MarkDelivered_frame
      [where t = 10 and d = "\<lparr>users = [], messages = [\<lparr>MessageID = 1, From = ''alice'', To = ''bob'', Contents = ''hi'',
      CreatedAt = 5, DeliveredAt = 0\<rparr>], failing = False\<rparr>"
         and m = "\<lparr>MessageID = 1, From = ''alice'', To = ''bob'', Contents = ''hi'',
      CreatedAt = 0, DeliveredAt = 0\<rparr>"
         and m' = "\<lparr>MessageID = 1, From = ''alice'', To = ''bob'', Contents = ''hi'',
      CreatedAt = 0, DeliveredAt = 10\<rparr>"
         and d' = "\<lparr>users = [], messages = [\<lparr>MessageID = 1, From = ''alice'', To = ''bob'', Contents = ''hi'',
      CreatedAt = 5, DeliveredAt = 0\<rparr>], failing = False\<rparr>"
         and e = "Some (Err ''could not mark message as updated'')" and ?t0.0 = 5
         and ?d0.0 = "\<lparr>users = [], messages = [], failing = False\<rparr>"
         and i = 1 and sender = "''alice''" and recipient = "''bob''" and contents = "''hi''"
         and msg = "\<lparr>MessageID = 1, From = ''alice'', To = ''bob'', Contents = ''hi'',
      CreatedAt = 5, DeliveredAt = 0\<rparr>"
         and ?d1.0 = "\<lparr>users = [], messages = [\<lparr>MessageID = 1, From = ''alice'', To = ''bob'', Contents = ''hi'',
      CreatedAt = 5, DeliveredAt = 0\<rparr>], failing = False\<rparr>"]
  by (simp add: MarkDelivered_def InsertMessage_def zeroTime_def Let_def)

text \<open>A message marked delivered at tick 10 and marked again at tick 20 has its
  timestamp set a second time: it is 20 afterwards, in the struct and in the table.\<close>

theorem MarkDelivered_twice_counterexample:
  "MarkDelivered 10 \<lparr>users = [], messages = [\<lparr>MessageID = 1, From = ''alice'', To = ''bob'', Contents = ''hi'',
      CreatedAt = 5, DeliveredAt = 0\<rparr>], failing = False\<rparr>
     \<lparr>MessageID = 1, From = ''alice'', To = ''bob'', Contents = ''hi'',
      CreatedAt = 5, DeliveredAt = 0\<rparr> =
   (\<lparr>MessageID = 1, From = ''alice'', To = ''bob'', Contents = ''hi'',
      CreatedAt = 5, DeliveredAt = 10\<rparr>,
    \<lparr>users = [], messages = [\<lparr>MessageID = 1, From = ''alice'', To = ''bob'', Contents = ''hi'',
      CreatedAt = 5, DeliveredAt = 10\<rparr>], failing = False\<rparr>,
    None) \<and>
   MarkDelivered 20 \<lparr>users = [], messages = [\<lparr>MessageID = 1, From = ''alice'', To = ''bob'', Contents = ''hi'',
      CreatedAt = 5, DeliveredAt = 10\<rparr>], failing = False\<rparr>
     \<lparr>MessageID = 1, From = ''alice'', To = ''bob'', Contents = ''hi'',
      CreatedAt = 5, DeliveredAt = 10\<rparr> =
   (\<lparr>MessageID = 1, From = ''alice'', To = ''bob'', Contents = ''hi'',
      CreatedAt = 5, DeliveredAt = 20\<rparr>,
    \<lparr>users = [], messages = [\<lparr>MessageID = 1, From = ''alice'', To = ''bob'', Contents = ''hi'',
      CreatedAt = 5, DeliveredAt = 20\<rparr>], failing = False\<rparr>,
    None)"
  by (simp add: MarkDelivered_def Let_def zeroTime_def)

section \<open>Startup and exit\<close>

lemma resetAllAway_users:
  "resetAllAway d = Inr d' \<Longrightarrow> users d' = map (\<lambda>u. u\<lparr>Status := UserStatusAway\<rparr>) (users d)"
  by (auto simp: resetAllAway_def split: if_splits)

lemma startup_Inr:
  assumes "startup env = Inr p"
  obtains path c d d' where "flags env = Parsed path" "path \<noteq> []" "FromFile env = Inr c"
    "UnmarshalText env = None"
    "Connect env = Inr d" "resetAllAway d = Inr d'" "Listen env = None"
    "p = \<lparr>conf = c, proc_db = d', accepted = 0\<rparr>"
  using assms
  by (auto simp: startup_def split: if_splits sum.splits option.splits FlagParse.splits)

lemma serve_signal: "snd (serve p (replicate n Accepted @ ShutdownSignal # rest)) = Some 1"
  by (induction n arbitrary: p) auto

text \<open>C5. When \<open>main\<close> reaches the accept loop, no connection has been accepted yet and
  every row of the users table has status Away: the table is the one \<open>db.Connect\<close> gave,
  with the status of every row set to Away, whatever it was.\<close>

theorem startup_resets_users:
  "startup env = Inr p \<Longrightarrow>
     accepted p = 0 \<and>
     (\<forall>u \<in> set (users (proc_db p)). Status u = UserStatusAway) \<and>
     (\<exists>d. Connect env = Inr d \<and>
          users (proc_db p) = map (\<lambda>u. u\<lparr>Status := UserStatusAway\<rparr>) (users d))"
proof -
  assume "startup env = Inr p"
  then obtain c d d' where d: "Connect env = Inr d" and r: "resetAllAway d = Inr d'"
    and p: "p = \<lparr>conf = c, proc_db = d', accepted = 0\<rparr>"
    by (rule startup_Inr)
  have u: "users (proc_db p) = map (\<lambda>u. u\<lparr>Status := UserStatusAway\<rparr>) (users d)"
    using resetAllAway_users [OF r] p by simp
  then have "\<forall>u \<in> set (users (proc_db p)). Status u = UserStatusAway"
    by auto
  with u d p show ?thesis by auto
qed

theorem startup_resets_users_witness:
  "startup
     \<lparr>flags = Parsed ''app.yml'',
      FromFile = Inr \<lparr>AppConfig_LogLevel = ''debug'', AppConfig_LogStyle = ''human'',
                      AppConfig_Metrics_Addr = [], OscarConfig_Addr = ''0.0.0.0:5190'',
                      OscarConfig_BOS = ''10.0.1.2:5191''\<rparr>,
      UnmarshalText = None,
      Connect = Inr \<lparr>users = [\<lparr>ScreenName = ''alice'', Email = [], Password = [],
                                Profile = [], AwayMessage = [], Status = UserStatusOnline,
                                LastActivityAt = 3, Verified = True\<rparr>,
                               \<lparr>ScreenName = ''bob'', Email = [], Password = [],
                                Profile = [], AwayMessage = [], Status = UserStatusAway,
                                LastActivityAt = 4, Verified = True\<rparr>],
                      messages = [], failing = False\<rparr>,
      Listen = None\<rparr> =
   Inr \<lparr>conf = \<lparr>AppConfig_LogLevel = ''debug'', AppConfig_LogStyle = ''human'',
                  AppConfig_Metrics_Addr = [], OscarConfig_Addr = ''0.0.0.0:5190'',
                  OscarConfig_BOS = ''10.0.1.2:5191''\<rparr>,
        proc_db = \<lparr>users = [\<lparr>ScreenName = ''alice'', Email = [], Password = [],
                                Profile = [], AwayMessage = [], Status = UserStatusAway,
                                LastActivityAt = 3, Verified = True\<rparr>,
                               \<lparr>ScreenName = ''bob'', Email = [], Password = [],
                                Profile = [], AwayMessage = [], Status = UserStatusAway,
                                LastActivityAt = 4, Verified = True\<rparr>],
                   messages = [], failing = False\<rparr>,
        accepted = 0\<rparr> \<and>
   Status \<lparr>ScreenName = ''alice'', Email = [], Password = [], Profile = [], AwayMessage = [],
           Status = UserStatusAway, LastActivityAt = 3, Verified = True\<rparr> = UserStatusAway"
  using startup_resets_users
    [of "\<lparr>flags = Parsed ''app.yml'',
      FromFile = Inr \<lparr>AppConfig_LogLevel = ''debug'', AppConfig_LogStyle = ''human'',
                      AppConfig_Metrics_Addr = [], OscarConfig_Addr = ''0.0.0.0:5190'',
                      OscarConfig_BOS = ''10.0.1.2:5191''\<rparr>,
      UnmarshalText = None,
      Connect = Inr \<lparr>users = [\<lparr>ScreenName = ''alice'', Email = [], Password = [],
                                Profile = [], AwayMessage = [], Status = UserStatusOnline,
                                LastActivityAt = 3, Verified = True\<rparr>,
                               \<lparr>ScreenName = ''bob'', Email = [], Password = [],
                                Profile = [], AwayMessage = [], Status = UserStatusAway,
                                LastActivityAt = 4, Verified = True\<rparr>],
                      messages = [], failing = False\<rparr>,
      Listen = None\<rparr>"
     "\<lparr>conf = \<lparr>AppConfig_LogLevel = ''debug'', AppConfig_LogStyle = ''human'',
                  AppConfig_Metrics_Addr = [], OscarConfig_Addr = ''0.0.0.0:5190'',
                  OscarConfig_BOS = ''10.0.1.2:5191''\<rparr>,
        proc_db = \<lparr>users = [\<lparr>ScreenName = ''alice'', Email = [], Password = [],
                                Profile = [], AwayMessage = [], Status = UserStatusAway,
                                LastActivityAt = 3, Verified = True\<rparr>,
                               \<lparr>ScreenName = ''bob'', Email = [], Password = [],
                                Profile = [], AwayMessage = [], Status = UserStatusAway,
                                LastActivityAt = 4, Verified = True\<rparr>],
                   messages = [], failing = False\<rparr>,
        accepted = 0\<rparr>"]
  by (simp add: startup_def resetAllAway_def)

text \<open>C8, as the code has it. The process exits with code 1, not 0, on the shutdown
  signal after a successful startup, however many connections were accepted before. It
  exits with a non-zero code on a configuration error and on a listener failure: code 1
  when \<open>--config\<close> is not given or empty, when the configuration does not parse, when
  its log level does not parse and when the listener does not open, and code 2 when the
  command line itself is malformed.\<close>

theorem exit_codes:
  "(startup env = Inr p \<longrightarrow>
      main env (replicate n Accepted @ ShutdownSignal # rest) = Some 1) \<and>
   (flags env = Parsed [] \<longrightarrow> main env evs = Some 1) \<and>
   (flags env = Malformed \<longrightarrow> main env evs = Some 2) \<and>
   (flags env = Parsed path \<and> path \<noteq> [] \<and> FromFile env = Inl err \<longrightarrow>
      main env evs = Some 1) \<and>
   (flags env = Parsed path \<and> path \<noteq> [] \<and> FromFile env = Inr c \<and>
    UnmarshalText env = Some err \<longrightarrow> main env evs = Some 1) \<and>
   (flags env = Parsed path \<and> path \<noteq> [] \<and> FromFile env = Inr c \<and>
    UnmarshalText env = None \<and> Connect env = Inr d \<and> \<not> failing d \<and>
    Listen env = Some err \<longrightarrow> main env evs = Some 1)"
proof (intro conjI impI)
  assume "startup env = Inr p"
  then show "main env (replicate n Accepted @ ShutdownSignal # rest) = Some 1"
    by (simp add: main_def serve_signal)
next
  assume "flags env = Parsed []"
  then show "main env evs = Some 1"
    by (simp add: main_def startup_def)
next
  assume "flags env = Malformed"
  then show "main env evs = Some 2"
    by (simp add: main_def startup_def)
next
  assume "flags env = Parsed path \<and> path \<noteq> [] \<and> FromFile env = Inl err"
  then show "main env evs = Some 1"
    by (simp add: main_def startup_def)
next
  assume "flags env = Parsed path \<and> path \<noteq> [] \<and> FromFile env = Inr c \<and>
    UnmarshalText env = Some err"
  then show "main env evs = Some 1"
    by (simp add: main_def startup_def)
next
  assume "flags env = Parsed path \<and> path \<noteq> [] \<and> FromFile env = Inr c \<and>
    UnmarshalText env = None \<and> Connect env = Inr d \<and> \<not> failing d \<and>
    Listen env = Some err"
  then show "main env evs = Some 1"
    by (simp add: main_def startup_def resetAllAway_def)
qed

theorem exit_codes_witness:
  "startup
     \<lparr>flags = Parsed ''app.yml'',
      FromFile = Inr \<lparr>AppConfig_LogLevel = ''debug'', AppConfig_LogStyle = ''human'',
        AppConfig_Metrics_Addr = [], OscarConfig_Addr = ''0.0.0.0:5190'',
        OscarConfig_BOS = ''10.0.1.2:5191''\<rparr>,
      UnmarshalText = None, Connect = Inr \<lparr>users = [], messages = [], failing = False\<rparr>,
      Listen = None\<rparr> =
   Inr \<lparr>conf = \<lparr>AppConfig_LogLevel = ''debug'', AppConfig_LogStyle = ''human'',
        AppConfig_Metrics_Addr = [], OscarConfig_Addr = ''0.0.0.0:5190'',
        OscarConfig_BOS = ''10.0.1.2:5191''\<rparr>,
      proc_db = \<lparr>users = [], messages = [], failing = False\<rparr>, accepted = 0\<rparr> \<and>
   main
     \<lparr>flags = Parsed ''app.yml'',
      FromFile = Inr \<lparr>AppConfig_LogLevel = ''debug'', AppConfig_LogStyle = ''human'',
        AppConfig_Metrics_Addr = [], OscarConfig_Addr = ''0.0.0.0:5190'',
        OscarConfig_BOS = ''10.0.1.2:5191''\<rparr>,
      UnmarshalText = None, Connect = Inr \<lparr>users = [], messages = [], failing = False\<rparr>,
      Listen = None\<rparr> [Accepted, Accepted, ShutdownSignal] = Some 1 \<and>
   main
     \<lparr>flags = Parsed [],
      FromFile = Inr \<lparr>AppConfig_LogLevel = ''debug'', AppConfig_LogStyle = ''human'',
        AppConfig_Metrics_Addr = [], OscarConfig_Addr = ''0.0.0.0:5190'',
        OscarConfig_BOS = ''10.0.1.2:5191''\<rparr>,
      UnmarshalText = None, Connect = Inr \<lparr>users = [], messages = [], failing = False\<rparr>,
      Listen = None\<rparr> [] = Some 1 \<and>
   main
     \<lparr>flags = Malformed,
      FromFile = Inr \<lparr>AppConfig_LogLevel = ''debug'', AppConfig_LogStyle = ''human'',
        AppConfig_Metrics_Addr = [], OscarConfig_Addr = ''0.0.0.0:5190'',
        OscarConfig_BOS = ''10.0.1.2:5191''\<rparr>,
      UnmarshalText = None, Connect = Inr \<lparr>users = [], messages = [], failing = False\<rparr>,
      Listen = None\<rparr> [] = Some 2 \<and>
   main
     \<lparr>flags = Parsed ''app.yml'',
      FromFile = Inl (Err ''no such file''),
      UnmarshalText = None, Connect = Inr \<lparr>users = [], messages = [], failing = False\<rparr>,
      Listen = None\<rparr> [] = Some 1 \<and>
   main
     \<lparr>flags = Parsed ''app.yml'',
      FromFile = Inr \<lparr>AppConfig_LogLevel = ''debug'', AppConfig_LogStyle = ''human'',
        AppConfig_Metrics_Addr = [], OscarConfig_Addr = ''0.0.0.0:5190'',
        OscarConfig_BOS = ''10.0.1.2:5191''\<rparr>,
      UnmarshalText = Some (Err ''unknown level name''), Connect = Inr \<lparr>users = [], messages = [], failing = False\<rparr>,
      Listen = None\<rparr> [] = Some 1 \<and>
   main
     \<lparr>flags = Parsed ''app.yml'',
      FromFile = Inr \<lparr>AppConfig_LogLevel = ''debug'', AppConfig_LogStyle = ''human'',
        AppConfig_Metrics_Addr = [], OscarConfig_Addr = ''0.0.0.0:5190'',
        OscarConfig_BOS = ''10.0.1.2:5191''\<rparr>,
      UnmarshalText = None, Connect = Inr \<lparr>users = [], messages = [], failing = False\<rparr>,
      Listen = Some (Err ''address already in use'')\<rparr> [] = Some 1"
  using
    exit_codes
      [where env = "\<lparr>flags = Parsed ''app.yml'',
      FromFile = Inr \<lparr>AppConfig_LogLevel = ''debug'', AppConfig_LogStyle = ''human'',
        AppConfig_Metrics_Addr = [], OscarConfig_Addr = ''0.0.0.0:5190'',
        OscarConfig_BOS = ''10.0.1.2:5191''\<rparr>,
      UnmarshalText = None, Connect = Inr \<lparr>users = [], messages = [], failing = False\<rparr>,
      Listen = None\<rparr>"
         and evs = "[]" and p = "\<lparr>conf = \<lparr>AppConfig_LogLevel = ''debug'', AppConfig_LogStyle = ''human'',
        AppConfig_Metrics_Addr = [], OscarConfig_Addr = ''0.0.0.0:5190'',
        OscarConfig_BOS = ''10.0.1.2:5191''\<rparr>,
      proc_db = \<lparr>users = [], messages = [], failing = False\<rparr>, accepted = 0\<rparr>"
         and n = "Suc (Suc 0)" and rest = "[]" and path = "''app.yml''" and err = "Err ''no such file''"
         and c = "\<lparr>AppConfig_LogLevel = ''debug'', AppConfig_LogStyle = ''human'',
        AppConfig_Metrics_Addr = [], OscarConfig_Addr = ''0.0.0.0:5190'',
        OscarConfig_BOS = ''10.0.1.2:5191''\<rparr>"
         and d = "\<lparr>users = [], messages = [], failing = False\<rparr>"]
    exit_codes
      [where env = "\<lparr>flags = Parsed [],
      FromFile = Inr \<lparr>AppConfig_LogLevel = ''debug'', AppConfig_LogStyle = ''human'',
        AppConfig_Metrics_Addr = [], OscarConfig_Addr = ''0.0.0.0:5190'',
        OscarConfig_BOS = ''10.0.1.2:5191''\<rparr>,
      UnmarshalText = None, Connect = Inr \<lparr>users = [], messages = [], failing = False\<rparr>,
      Listen = None\<rparr>"
         and evs = "[]" and p = "\<lparr>conf = \<lparr>AppConfig_LogLevel = ''debug'', AppConfig_LogStyle = ''human'',
        AppConfig_Metrics_Addr = [], OscarConfig_Addr = ''0.0.0.0:5190'',
        OscarConfig_BOS = ''10.0.1.2:5191''\<rparr>,
      proc_db = \<lparr>users = [], messages = [], failing = False\<rparr>, accepted = 0\<rparr>"
         and n = "Suc (Suc 0)" and rest = "[]" and path = "''app.yml''" and err = "Err ''no such file''"
         and c = "\<lparr>AppConfig_LogLevel = ''debug'', AppConfig_LogStyle = ''human'',
        AppConfig_Metrics_Addr = [], OscarConfig_Addr = ''0.0.0.0:5190'',
        OscarConfig_BOS = ''10.0.1.2:5191''\<rparr>"
         and d = "\<lparr>users = [], messages = [], failing = False\<rparr>"]
    exit_codes
      [where env = "\<lparr>flags = Malformed,
      FromFile = Inr \<lparr>AppConfig_LogLevel = ''debug'', AppConfig_LogStyle = ''human'',
        AppConfig_Metrics_Addr = [], OscarConfig_Addr = ''0.0.0.0:5190'',
        OscarConfig_BOS = ''10.0.1.2:5191''\<rparr>,
      UnmarshalText = None, Connect = Inr \<lparr>users = [], messages = [], failing = False\<rparr>,
      Listen = None\<rparr>"
         and evs = "[]" and p = "\<lparr>conf = \<lparr>AppConfig_LogLevel = ''debug'', AppConfig_LogStyle = ''human'',
        AppConfig_Metrics_Addr = [], OscarConfig_Addr = ''0.0.0.0:5190'',
        OscarConfig_BOS = ''10.0.1.2:5191''\<rparr>,
      proc_db = \<lparr>users = [], messages = [], failing = False\<rparr>, accepted = 0\<rparr>"
         and n = "Suc (Suc 0)" and rest = "[]" and path = "''app.yml''" and err = "Err ''no such file''"
         and c = "\<lparr>AppConfig_LogLevel = ''debug'', AppConfig_LogStyle = ''human'',
        AppConfig_Metrics_Addr = [], OscarConfig_Addr = ''0.0.0.0:5190'',
        OscarConfig_BOS = ''10.0.1.2:5191''\<rparr>"
         and d = "\<lparr>users = [], messages = [], failing = False\<rparr>"]
    exit_codes
      [where env = "\<lparr>flags = Parsed ''app.yml'',
      FromFile = Inl (Err ''no such file''),
      UnmarshalText = None, Connect = Inr \<lparr>users = [], messages = [], failing = False\<rparr>,
      Listen = None\<rparr>"
         and evs = "[]" and p = "\<lparr>conf = \<lparr>AppConfig_LogLevel = ''debug'', AppConfig_LogStyle = ''human'',
        AppConfig_Metrics_Addr = [], OscarConfig_Addr = ''0.0.0.0:5190'',
        OscarConfig_BOS = ''10.0.1.2:5191''\<rparr>,
      proc_db = \<lparr>users = [], messages = [], failing = False\<rparr>, accepted = 0\<rparr>"
         and n = "Suc (Suc 0)" and rest = "[]" and path = "''app.yml''" and err = "Err ''no such file''"
         and c = "\<lparr>AppConfig_LogLevel = ''debug'', AppConfig_LogStyle = ''human'',
        AppConfig_Metrics_Addr = [], OscarConfig_Addr = ''0.0.0.0:5190'',
        OscarConfig_BOS = ''10.0.1.2:5191''\<rparr>"
         and d = "\<lparr>users = [], messages = [], failing = False\<rparr>"]
    exit_codes
      [where env = "\<lparr>flags = Parsed ''app.yml'',
      FromFile = Inr \<lparr>AppConfig_LogLevel = ''debug'', AppConfig_LogStyle = ''human'',
        AppConfig_Metrics_Addr = [], OscarConfig_Addr = ''0.0.0.0:5190'',
        OscarConfig_BOS = ''10.0.1.2:5191''\<rparr>,
      UnmarshalText = Some (Err ''unknown level name''), Connect = Inr \<lparr>users = [], messages = [], failing = False\<rparr>,
      Listen = None\<rparr>"
         and evs = "[]" and p = "\<lparr>conf = \<lparr>AppConfig_LogLevel = ''debug'', AppConfig_LogStyle = ''human'',
        AppConfig_Metrics_Addr = [], OscarConfig_Addr = ''0.0.0.0:5190'',
        OscarConfig_BOS = ''10.0.1.2:5191''\<rparr>,
      proc_db = \<lparr>users = [], messages = [], failing = False\<rparr>, accepted = 0\<rparr>"
         and n = "Suc (Suc 0)" and rest = "[]" and path = "''app.yml''" and err = "Err ''unknown level name''"
         and c = "\<lparr>AppConfig_LogLevel = ''debug'', AppConfig_LogStyle = ''human'',
        AppConfig_Metrics_Addr = [], OscarConfig_Addr = ''0.0.0.0:5190'',
        OscarConfig_BOS = ''10.0.1.2:5191''\<rparr>"
         and d = "\<lparr>users = [], messages = [], failing = False\<rparr>"]
    exit_codes
      [where env = "\<lparr>flags = Parsed ''app.yml'',
      FromFile = Inr \<lparr>AppConfig_LogLevel = ''debug'', AppConfig_LogStyle = ''human'',
        AppConfig_Metrics_Addr = [], OscarConfig_Addr = ''0.0.0.0:5190'',
        OscarConfig_BOS = ''10.0.1.2:5191''\<rparr>,
      UnmarshalText = None, Connect = Inr \<lparr>users = [], messages = [], failing = False\<rparr>,
      Listen = Some (Err ''address already in use'')\<rparr>"
         and evs = "[]" and p = "\<lparr>conf = \<lparr>AppConfig_LogLevel = ''debug'', AppConfig_LogStyle = ''human'',
        AppConfig_Metrics_Addr = [], OscarConfig_Addr = ''0.0.0.0:5190'',
        OscarConfig_BOS = ''10.0.1.2:5191''\<rparr>,
      proc_db = \<lparr>users = [], messages = [], failing = False\<rparr>, accepted = 0\<rparr>"
         and n = "Suc (Suc 0)" and rest = "[]" and path = "''app.yml''" and err = "Err ''address already in use''"
         and c = "\<lparr>AppConfig_LogLevel = ''debug'', AppConfig_LogStyle = ''human'',
        AppConfig_Metrics_Addr = [], OscarConfig_Addr = ''0.0.0.0:5190'',
        OscarConfig_BOS = ''10.0.1.2:5191''\<rparr>"
         and d = "\<lparr>users = [], messages = [], failing = False\<rparr>"]
  by (simp add: startup_def resetAllAway_def)

text \<open>The process started with a configuration that parses, a database that answers and
  a listener that opens, then sent the shutdown signal, exits with code 1.\<close>

theorem shutdown_exit_counterexample:
  "main
     \<lparr>flags = Parsed ''app.yml'',
      FromFile = Inr \<lparr>AppConfig_LogLevel = ''debug'', AppConfig_LogStyle = ''human'',
        AppConfig_Metrics_Addr = [], OscarConfig_Addr = ''0.0.0.0:5190'',
        OscarConfig_BOS = ''10.0.1.2:5191''\<rparr>,
      UnmarshalText = None, Connect = Inr \<lparr>users = [], messages = [], failing = False\<rparr>,
      Listen = None\<rparr> [Accepted, ShutdownSignal] = Some 1 \<and>
   main
     \<lparr>flags = Parsed ''app.yml'',
      FromFile = Inr \<lparr>AppConfig_LogLevel = ''debug'', AppConfig_LogStyle = ''human'',
        AppConfig_Metrics_Addr = [], OscarConfig_Addr = ''0.0.0.0:5190'',
        OscarConfig_BOS = ''10.0.1.2:5191''\<rparr>,
      UnmarshalText = None, Connect = Inr \<lparr>users = [], messages = [], failing = False\<rparr>,
      Listen = None\<rparr> [Accepted, ShutdownSignal] \<noteq> Some 0"
  by (simp add: main_def startup_def resetAllAway_def)

section \<open>Lookup in the session registry of \<open>main.go\<close>\<close>

lemma canonical_Alice: "canonical ''alice'' = canonical ''Alice''"
  by code_simp

text \<open>C7, as the code has it. The registry of \<open>main.go\<close> is keyed by the string as
  given: after a session is stored under a name, \<open>getSession\<close> gives it for exactly that
  name and gives for every other name what it gave before. A name that differs from the
  stored one, though it has the same canonical form, finds nothing in a registry that
  holds only that entry.\<close>

theorem getSession_exact:
  "getSession (storeSession sm name session) name' =
     (if name' = name then Some session else getSession sm name') \<and>
   (name' \<noteq> name \<and> canonical name' = canonical name \<longrightarrow>
      getSession (storeSession Map.empty name session) name' = None)"
  by (auto simp: getSession_def storeSession_def split: option.splits)

theorem getSession_exact_witness:
  "''alice'' \<noteq> ''Alice'' \<and> canonical ''alice'' = canonical ''Alice'' \<and>
   getSession (storeSession Map.empty ''Alice'' 7) ''alice'' = None"
  using getSession_exact [of Map.empty "''Alice''" 7 "''alice''"]
  by (simp add: canonical_Alice getSession_def)

text \<open>The session stored under \<open>Alice\<close> is found under \<open>Alice\<close> and is not found under
  \<open>alice\<close> or under \<open>Al ice\<close>.\<close>

theorem getSession_case_counterexample:
  "getSession (storeSession Map.empty ''Alice'' 7) ''Alice'' = Some 7 \<and>
   getSession (storeSession Map.empty ''Alice'' 7) ''alice'' = None \<and>
   getSession (storeSession Map.empty ''Alice'' 7) ''Al ice'' = None"
  by (simp add: getSession_def storeSession_def)

section \<open>The handler\<close>

lemma write_families:
  "fold (\<lambda>service snac. snac\<lparr>SNAC_Data := WriteUint16 (SNAC_Data snac) (SV_Family service)\<rparr>)
     svs snac =
   snac\<lparr>SNAC_Data := SNAC_Data snac @ concat (map (\<lambda>sv. PutUint16 (SV_Family sv)) svs)\<rparr>"
  by (induction svs arbitrary: snac) (simp_all add: WriteUint16_def)

lemma length_PutUint16: "length (PutUint16 v) = 2"
  by (simp add: PutUint16_def)

lemma length_PutUint32: "length (PutUint32 v) = 4"
  by (simp add: PutUint32_def)

lemma families_length:
  "length (concat (map (\<lambda>sv. PutUint16 (SV_Family sv)) svs)) = 2 * length svs"
  by (induction svs) (simp_all add: length_PutUint16)

lemma handleFn_blocks:
  "SessionFromContext ctx = Inr session \<Longrightarrow>
   handleFn_received env w ctx session flap = (w1, ctx1) \<Longrightarrow>
   handleFn env w ctx flap = handleFn_channel env w1 ctx1 session flap"
  by (simp add: handleFn_def)

lemma table_families:
  "concat (map (\<lambda>sv. PutUint16 (SV_Family sv)) ServiceVersions_table) =
   [0, 1, 0, 2, 0, 3, 0, 4, 0, 0x17, 0, 0x18]"
  by (simp add: ServiceVersions_table_def PutUint16_def)

lemma registered_families:
  "concat (map (\<lambda>(family, service). PutUint16 family) registrations) =
   [0, 1, 0, 2, 0, 3, 0, 4, 0, 0x17, 0, 0x18]"
  by (simp add: registrations_def PutUint16_def)

lemma serviceManager_dom: "dom serviceManager = set (map fst registrations)"
  by (simp add: serviceManager_def registrations_def RegisterService_def NewServiceManager_def
      insert_commute)

lemma received_user:
  assumes "UserFromContext ctx = Some user"
    and "handleFn_received env w ctx session flap = (w1, ctx1)"
  shows "ctx1 = NewContextWithUser ctx (user\<lparr>LastActivityAt := now env\<rparr>)"
    and "GetSession w1 (ScreenName user) = Some session"
    and "Session_ScreenName (sessions w1 session) = ScreenName user"
  using assms
  by (auto simp: handleFn_received_def Let_def SetSession_def GetSession_def Disconnect_def
      set_ScreenName_def log_write_def split: option.splits if_splits)

lemma received_frame:
  assumes "handleFn_received env w ctx session flap = (w1, ctx1)"
  shows "Disconnected (sessions w1 session) = Disconnected (sessions w session)"
    and "Sent (sessions w1 session) = Sent (sessions w session)"
    and "db w1 = db w"
    and "onlineCh w1 = onlineCh w"
    and "logged w1 = logged w @ (if LogLevel env = ''DEBUG'' then [(Debug, ''RECV'')] else [])"
  using assms
  by (auto simp: handleFn_received_def Let_def SetSession_def Disconnect_def
      set_ScreenName_def log_write_def split: option.splits if_splits)

lemma handleCloseFn_user:
  assumes "SessionFromContext ctx = Inr session"
    and "UserFromContext ctx = Some user"
  shows "db (handleCloseFn v ctx s) = fst (snd (SetAway user (db v)))"
    and "onlineCh (handleCloseFn v ctx s) = onlineCh v @ [user\<lparr>Status := UserStatusAway\<rparr>]"
    and "GetSession (handleCloseFn v ctx s) (ScreenName user) = None"
    and "Disconnected (sessions (handleCloseFn v ctx s) session)"
  using assms
  by (auto simp: handleCloseFn_def Let_def SetAway_def RemoveSession_def GetSession_def
      Disconnect_def log_write_def split: option.splits if_splits)

lemma handleCloseFn_Disconnected:
  "Disconnected (sessions v s) \<Longrightarrow> Disconnected (sessions (handleCloseFn v ctx s') s)"
  by (auto simp: handleCloseFn_def Let_def SetAway_def RemoveSession_def SessionFromContext_def
      Disconnect_def log_write_def split: option.splits if_splits sum.splits)

lemma SetAway_rows:
  "map ScreenName (users (fst (snd (SetAway user d)))) = map ScreenName (users d)"
  by (induction "users d") (auto simp: SetAway_def Let_def o_def)

lemma SetAway_status:
  "\<not> failing d \<Longrightarrow> row \<in> set (users (fst (snd (SetAway user d)))) \<Longrightarrow>
   ScreenName row = ScreenName user \<Longrightarrow> Status row = UserStatusAway"
  by (auto simp: SetAway_def Let_def split: if_splits)

lemmas handler_defs =
  handleFn_def handleFn_received_def handleFn_channel_def handleCloseFn_def
  SessionFromContext_def UserFromContext_def NewContextWithUser_def
  SetAway_def SetSession_def GetSession_def RemoveSession_def Disconnect_def Send_def
  set_ScreenName_def log_write_def GetService_def serviceManager_def registrations_def
  RegisterService_def NewServiceManager_def Uint16_def Uint32_def Let_def

text \<open>C1. On a channel-1 frame that is not the hello, when the cookie validates and the
  session is still connected, the handler writes exactly one frame to the session, and to
  no other: a channel-2 FLAP with the next sequence number, carrying the SNAC (0x01, 0x03)
  whose payload is the 16-bit family of every entry of the service table, in order. With
  the table of the spec these are the families of the services \<open>main\<close> registers, in
  registration order: \<open>00 01 00 02 00 03 00 04 00 17 00 18\<close>. The context returned
  carries the user.\<close>

theorem services_advertised:
  assumes "SessionFromContext ctx = Inr session"
    and "handleFn_received env w ctx session flap = (w1, ctx1)"
    and "Channel (FLAP_Header flap) = 1"
    and "FLAP_Data flap \<noteq> [0, 0, 0, 1]"
    and "AuthenticateFLAPCookie env w1 ctx1 flap = (w2, Inr user)"
    and "\<not> Disconnected (sessions w2 session)"
  shows
    "Sent (sessions (fst (handleFn env w ctx flap)) session) =
       Sent (sessions w2 session) @
       [\<lparr>FLAP_Header =
           \<lparr>Channel = 2, SequenceNumber = Sequence (sessions w2 session) + 1,
            DataLength = of_nat (10 + 2 * length (ServiceVersions env))\<rparr>,
         FLAP_Data =
           SNAC_MarshalBinary
             \<lparr>SNAC_Header = \<lparr>Family = 1, Subtype = 3, Flags = 0, RequestID = 0\<rparr>,
              SNAC_Data = concat (map (\<lambda>sv. PutUint16 (SV_Family sv)) (ServiceVersions env))\<rparr>\<rparr>] \<and>
     (\<forall>s. s \<noteq> session \<longrightarrow> sessions (fst (handleFn env w ctx flap)) s = sessions w2 s) \<and>
     UserFromContext (snd (handleFn env w ctx flap)) = Some user \<and>
     (ServiceVersions env = ServiceVersions_table \<longrightarrow>
        concat (map (\<lambda>sv. PutUint16 (SV_Family sv)) (ServiceVersions env)) =
          concat (map (\<lambda>(family, service). PutUint16 family) registrations) \<and>
        concat (map (\<lambda>sv. PutUint16 (SV_Family sv)) (ServiceVersions env)) =
          [0, 1, 0, 2, 0, 3, 0, 4, 0, 0x17, 0, 0x18] \<and>
        dom serviceManager = set (map fst registrations))"
proof -
  let ?payload = "concat (map (\<lambda>sv. PutUint16 (SV_Family sv)) (ServiceVersions env))"
  let ?snac = "\<lparr>SNAC_Header = \<lparr>Family = 1, Subtype = 3, Flags = 0, RequestID = 0\<rparr>,
                SNAC_Data = ?payload\<rparr>"
  let ?w3 = "set_ScreenName session (ScreenName user)
               (log_write Info ''Authenticated user'' w2)"
  have len: "length ?payload = 2 * length (ServiceVersions env)"
    by (rule families_length)
  have snac_len: "length (SNAC_MarshalBinary ?snac) = 10 + 2 * length (ServiceVersions env)"
    by (simp add: SNAC_MarshalBinary_def length_PutUint16 length_PutUint32 len)
  have run: "handleFn env w ctx flap =
      (Send session ((NewFLAP 2)\<lparr>FLAP_Data := SNAC_MarshalBinary ?snac\<rparr>) ?w3,
       NewContextWithUser ctx1 user)"
    using assms
    by (simp add: handleFn_blocks handleFn_channel_def Let_def write_families NewSNAC_def
        Write_def NewFLAP_def)
  have open3: "\<not> Disconnected (sessions ?w3 session)"
    using assms(6) by (simp add: set_ScreenName_def log_write_def)
  have sent: "Sent (sessions (fst (handleFn env w ctx flap)) session) =
       Sent (sessions w2 session) @
       [\<lparr>FLAP_Header =
           \<lparr>Channel = 2, SequenceNumber = Sequence (sessions w2 session) + 1,
            DataLength = of_nat (10 + 2 * length (ServiceVersions env))\<rparr>,
         FLAP_Data = SNAC_MarshalBinary ?snac\<rparr>]"
    unfolding run using open3 snac_len
    by (simp add: Send_def Let_def NewFLAP_def set_ScreenName_def log_write_def)
  have others: "\<forall>s. s \<noteq> session \<longrightarrow> sessions (fst (handleFn env w ctx flap)) s = sessions w2 s"
    unfolding run
    by (simp add: Send_def Let_def set_ScreenName_def log_write_def)
  have user: "UserFromContext (snd (handleFn env w ctx flap)) = Some user"
    unfolding run by (simp add: UserFromContext_def NewContextWithUser_def)
  have table: "ServiceVersions env = ServiceVersions_table \<longrightarrow>
        ?payload = concat (map (\<lambda>(family, service). PutUint16 family) registrations) \<and>
        ?payload = [0, 1, 0, 2, 0, 3, 0, 4, 0, 0x17, 0, 0x18] \<and>
        dom serviceManager = set (map fst registrations)"
    by (simp add: table_families registered_families serviceManager_dom)
  from sent others user table show ?thesis
    by (intro conjI)
qed

theorem services_advertised_witness:
  "Sent (sessions (fst (handleFn
     \<lparr>LogLevel = ''info'', now = 100, ServiceVersions = ServiceVersions_table,
      AuthenticateFLAPCookie = (\<lambda>w ctx flap. (w, Inr \<lparr>ScreenName = ''alice'', Email = [], Password = [], Profile = [],
        AwayMessage = [], Status = UserStatusOnline, LastActivityAt = 0, Verified = True\<rparr>)),
      services = serviceManager,
      HandleSNAC = (\<lambda>service w ctx snac. (w, ctx, None))\<rparr>
     \<lparr>db = \<lparr>users = [\<lparr>ScreenName = ''alice'', Email = [], Password = [], Profile = [],
        AwayMessage = [], Status = UserStatusOnline, LastActivityAt = 0, Verified = True\<rparr>], messages = [], failing = False\<rparr>,
      sessions = (\<lambda>s. \<lparr>Session_ScreenName = [], Sequence = 0, Sent = [], Disconnected = False\<rparr>),
      sessionManager = Map.empty, onlineCh = [], logged = []\<rparr>
     \<lparr>ctx_session = Some 0, ctx_user = None\<rparr>
     \<lparr>FLAP_Header = \<lparr>Channel = 1, SequenceNumber = 1, DataLength = 8\<rparr>,
      FLAP_Data = [0, 0, 0, 1, 0, 6, 0, 0]\<rparr>)) 0) =
   [\<lparr>FLAP_Header = \<lparr>Channel = 2, SequenceNumber = 1, DataLength = 22\<rparr>,
      FLAP_Data = [0, 1, 0, 3, 0, 0, 0, 0, 0, 0,
                   0, 1, 0, 2, 0, 3, 0, 4, 0, 0x17, 0, 0x18]\<rparr>] \<and>
   UserFromContext (snd (handleFn
     \<lparr>LogLevel = ''info'', now = 100, ServiceVersions = ServiceVersions_table,
      AuthenticateFLAPCookie = (\<lambda>w ctx flap. (w, Inr \<lparr>ScreenName = ''alice'', Email = [], Password = [], Profile = [],
        AwayMessage = [], Status = UserStatusOnline, LastActivityAt = 0, Verified = True\<rparr>)),
      services = serviceManager,
      HandleSNAC = (\<lambda>service w ctx snac. (w, ctx, None))\<rparr>
     \<lparr>db = \<lparr>users = [\<lparr>ScreenName = ''alice'', Email = [], Password = [], Profile = [],
        AwayMessage = [], Status = UserStatusOnline, LastActivityAt = 0, Verified = True\<rparr>], messages = [], failing = False\<rparr>,
      sessions = (\<lambda>s. \<lparr>Session_ScreenName = [], Sequence = 0, Sent = [], Disconnected = False\<rparr>),
      sessionManager = Map.empty, onlineCh = [], logged = []\<rparr>
     \<lparr>ctx_session = Some 0, ctx_user = None\<rparr>
     \<lparr>FLAP_Header = \<lparr>Channel = 1, SequenceNumber = 1, DataLength = 8\<rparr>,
      FLAP_Data = [0, 0, 0, 1, 0, 6, 0, 0]\<rparr>)) =
   Some \<lparr>ScreenName = ''alice'', Email = [], Password = [], Profile = [],
        AwayMessage = [], Status = UserStatusOnline, LastActivityAt = 0, Verified = True\<rparr>"
  using services_advertised
    [where ctx = "\<lparr>ctx_session = Some 0, ctx_user = None\<rparr>"
       and session = 0
       and env = "\<lparr>LogLevel = ''info'', now = 100, ServiceVersions = ServiceVersions_table,
      AuthenticateFLAPCookie = (\<lambda>w ctx flap. (w, Inr \<lparr>ScreenName = ''alice'', Email = [], Password = [], Profile = [],
        AwayMessage = [], Status = UserStatusOnline, LastActivityAt = 0, Verified = True\<rparr>)),
      services = serviceManager,
      HandleSNAC = (\<lambda>service w ctx snac. (w, ctx, None))\<rparr>"
       and w = "\<lparr>db = \<lparr>users = [\<lparr>ScreenName = ''alice'', Email = [], Password = [], Profile = [],
        AwayMessage = [], Status = UserStatusOnline, LastActivityAt = 0, Verified = True\<rparr>], messages = [], failing = False\<rparr>,
      sessions = (\<lambda>s. \<lparr>Session_ScreenName = [], Sequence = 0, Sent = [], Disconnected = False\<rparr>),
      sessionManager = Map.empty, onlineCh = [], logged = []\<rparr>"
       and flap = "\<lparr>FLAP_Header = \<lparr>Channel = 1, SequenceNumber = 1, DataLength = 8\<rparr>,
      FLAP_Data = [0, 0, 0, 1, 0, 6, 0, 0]\<rparr>"
       and ?w1.0 = "\<lparr>db = \<lparr>users = [\<lparr>ScreenName = ''alice'', Email = [], Password = [], Profile = [],
        AwayMessage = [], Status = UserStatusOnline, LastActivityAt = 0, Verified = True\<rparr>], messages = [], failing = False\<rparr>,
      sessions = (\<lambda>s. \<lparr>Session_ScreenName = [], Sequence = 0, Sent = [], Disconnected = False\<rparr>),
      sessionManager = Map.empty, onlineCh = [], logged = []\<rparr>"
       and ?ctx1.0 = "\<lparr>ctx_session = Some 0, ctx_user = None\<rparr>"
       and ?w2.0 = "\<lparr>db = \<lparr>users = [\<lparr>ScreenName = ''alice'', Email = [], Password = [], Profile = [],
        AwayMessage = [], Status = UserStatusOnline, LastActivityAt = 0, Verified = True\<rparr>], messages = [], failing = False\<rparr>,
      sessions = (\<lambda>s. \<lparr>Session_ScreenName = [], Sequence = 0, Sent = [], Disconnected = False\<rparr>),
      sessionManager = Map.empty, onlineCh = [], logged = []\<rparr>"
       and user = "\<lparr>ScreenName = ''alice'', Email = [], Password = [], Profile = [],
        AwayMessage = [], Status = UserStatusOnline, LastActivityAt = 0, Verified = True\<rparr>"]
  by (simp add: SessionFromContext_def handleFn_received_def UserFromContext_def
      SNAC_MarshalBinary_def PutUint16_def PutUint32_def ServiceVersions_table_def)

text \<open>C2, as the code has it. When the cookie of a channel-1 frame does not validate, the
  handler writes one error entry to the log and returns the context it had: the failure
  is not fatal. The handler does not disconnect the session and does not run the close
  handler; the sessions, the session manager, the presence channel and the database are
  as the validation left them, so the connection stays open.\<close>

theorem cookie_failure_not_fatal:
  assumes "SessionFromContext ctx = Inr session"
    and "handleFn_received env w ctx session flap = (w1, ctx1)"
    and "Channel (FLAP_Header flap) = 1"
    and "FLAP_Data flap \<noteq> [0, 0, 0, 1]"
    and "AuthenticateFLAPCookie env w1 ctx1 flap = (w2, Inl (err, screenName))"
  shows
    "handleFn env w ctx flap =
       (w2\<lparr>logged := logged w2 @ [(Error, ''Could not authenticate user cookie'')]\<rparr>, ctx1) \<and>
     Disconnected (sessions (fst (handleFn env w ctx flap)) session) =
       Disconnected (sessions w2 session) \<and>
     Sent (sessions (fst (handleFn env w ctx flap)) session) = Sent (sessions w2 session)"
proof -
  have "handleFn env w ctx flap =
      (log_write Error ''Could not authenticate user cookie'' w2, ctx1)"
    using assms by (simp add: handleFn_blocks handleFn_channel_def)
  then show ?thesis
    by (simp add: log_write_def)
qed

theorem cookie_failure_not_fatal_witness:
  "handleFn
     \<lparr>LogLevel = ''info'', now = 100, ServiceVersions = ServiceVersions_table,
      AuthenticateFLAPCookie = (\<lambda>w ctx flap. (w, Inl (Err ''cookie expired'', ''alice''))),
      services = serviceManager,
      HandleSNAC = (\<lambda>service w ctx snac. (w, ctx, None))\<rparr>
     \<lparr>db = \<lparr>users = [\<lparr>ScreenName = ''alice'', Email = [], Password = [], Profile = [],
        AwayMessage = [], Status = UserStatusOnline, LastActivityAt = 0, Verified = True\<rparr>], messages = [], failing = False\<rparr>,
      sessions = (\<lambda>s. \<lparr>Session_ScreenName = [], Sequence = 0, Sent = [], Disconnected = False\<rparr>),
      sessionManager = Map.empty, onlineCh = [], logged = []\<rparr>
     \<lparr>ctx_session = Some 0, ctx_user = None\<rparr>
     \<lparr>FLAP_Header = \<lparr>Channel = 1, SequenceNumber = 1, DataLength = 8\<rparr>,
      FLAP_Data = [0, 0, 0, 1, 0, 6, 0, 0]\<rparr> =
   (\<lparr>db = \<lparr>users = [\<lparr>ScreenName = ''alice'', Email = [], Password = [], Profile = [],
        AwayMessage = [], Status = UserStatusOnline, LastActivityAt = 0, Verified = True\<rparr>], messages = [], failing = False\<rparr>,
      sessions = (\<lambda>s. \<lparr>Session_ScreenName = [], Sequence = 0, Sent = [], Disconnected = False\<rparr>),
      sessionManager = Map.empty, onlineCh = [], logged = [(Error, ''Could not authenticate user cookie'')]\<rparr>,
    \<lparr>ctx_session = Some 0, ctx_user = None\<rparr>)"
  using cookie_failure_not_fatal
    [where ctx = "\<lparr>ctx_session = Some 0, ctx_user = None\<rparr>"
       and session = 0
       and env = "\<lparr>LogLevel = ''info'', now = 100, ServiceVersions = ServiceVersions_table,
      AuthenticateFLAPCookie = (\<lambda>w ctx flap. (w, Inl (Err ''cookie expired'', ''alice''))),
      services = serviceManager,
      HandleSNAC = (\<lambda>service w ctx snac. (w, ctx, None))\<rparr>"
       and w = "\<lparr>db = \<lparr>users = [\<lparr>ScreenName = ''alice'', Email = [], Password = [], Profile = [],
        AwayMessage = [], Status = UserStatusOnline, LastActivityAt = 0, Verified = True\<rparr>], messages = [], failing = False\<rparr>,
      sessions = (\<lambda>s. \<lparr>Session_ScreenName = [], Sequence = 0, Sent = [], Disconnected = False\<rparr>),
      sessionManager = Map.empty, onlineCh = [], logged = []\<rparr>"
       and flap = "\<lparr>FLAP_Header = \<lparr>Channel = 1, SequenceNumber = 1, DataLength = 8\<rparr>,
      FLAP_Data = [0, 0, 0, 1, 0, 6, 0, 0]\<rparr>"
       and ?w1.0 = "\<lparr>db = \<lparr>users = [\<lparr>ScreenName = ''alice'', Email = [], Password = [], Profile = [],
        AwayMessage = [], Status = UserStatusOnline, LastActivityAt = 0, Verified = True\<rparr>], messages = [], failing = False\<rparr>,
      sessions = (\<lambda>s. \<lparr>Session_ScreenName = [], Sequence = 0, Sent = [], Disconnected = False\<rparr>),
      sessionManager = Map.empty, onlineCh = [], logged = []\<rparr>"
       and ?ctx1.0 = "\<lparr>ctx_session = Some 0, ctx_user = None\<rparr>"
       and ?w2.0 = "\<lparr>db = \<lparr>users = [\<lparr>ScreenName = ''alice'', Email = [], Password = [], Profile = [],
        AwayMessage = [], Status = UserStatusOnline, LastActivityAt = 0, Verified = True\<rparr>], messages = [], failing = False\<rparr>,
      sessions = (\<lambda>s. \<lparr>Session_ScreenName = [], Sequence = 0, Sent = [], Disconnected = False\<rparr>),
      sessionManager = Map.empty, onlineCh = [], logged = []\<rparr>"
       and err = "Err ''cookie expired''" and screenName = "''alice''"]
  by (simp add: SessionFromContext_def handleFn_received_def UserFromContext_def)

text \<open>A connected session, no user yet, a channel-1 frame with a cookie that does not
  validate: the failure is logged, the context comes back as it was, and the session is
  still connected.\<close>

theorem cookie_failure_counterexample:
  "logged (fst (handleFn
     \<lparr>LogLevel = ''info'', now = 100, ServiceVersions = ServiceVersions_table,
      AuthenticateFLAPCookie = (\<lambda>w ctx flap. (w, Inl (Err ''cookie expired'', ''alice''))),
      services = serviceManager,
      HandleSNAC = (\<lambda>service w ctx snac. (w, ctx, None))\<rparr>
     \<lparr>db = \<lparr>users = [\<lparr>ScreenName = ''alice'', Email = [], Password = [], Profile = [],
        AwayMessage = [], Status = UserStatusOnline, LastActivityAt = 0, Verified = True\<rparr>], messages = [], failing = False\<rparr>,
      sessions = (\<lambda>s. \<lparr>Session_ScreenName = [], Sequence = 0, Sent = [], Disconnected = False\<rparr>),
      sessionManager = Map.empty, onlineCh = [], logged = []\<rparr>
     \<lparr>ctx_session = Some 0, ctx_user = None\<rparr>
     \<lparr>FLAP_Header = \<lparr>Channel = 1, SequenceNumber = 1, DataLength = 8\<rparr>,
      FLAP_Data = [0, 0, 0, 1, 0, 6, 0, 0]\<rparr>)) =
     [(Error, ''Could not authenticate user cookie'')] \<and>
   \<not> Disconnected (sessions (fst (handleFn
     \<lparr>LogLevel = ''info'', now = 100, ServiceVersions = ServiceVersions_table,
      AuthenticateFLAPCookie = (\<lambda>w ctx flap. (w, Inl (Err ''cookie expired'', ''alice''))),
      services = serviceManager,
      HandleSNAC = (\<lambda>service w ctx snac. (w, ctx, None))\<rparr>
     \<lparr>db = \<lparr>users = [\<lparr>ScreenName = ''alice'', Email = [], Password = [], Profile = [],
        AwayMessage = [], Status = UserStatusOnline, LastActivityAt = 0, Verified = True\<rparr>], messages = [], failing = False\<rparr>,
      sessions = (\<lambda>s. \<lparr>Session_ScreenName = [], Sequence = 0, Sent = [], Disconnected = False\<rparr>),
      sessionManager = Map.empty, onlineCh = [], logged = []\<rparr>
     \<lparr>ctx_session = Some 0, ctx_user = None\<rparr>
     \<lparr>FLAP_Header = \<lparr>Channel = 1, SequenceNumber = 1, DataLength = 8\<rparr>,
      FLAP_Data = [0, 0, 0, 1, 0, 6, 0, 0]\<rparr>)) 0) \<and>
   snd (handleFn
     \<lparr>LogLevel = ''info'', now = 100, ServiceVersions = ServiceVersions_table,
      AuthenticateFLAPCookie = (\<lambda>w ctx flap. (w, Inl (Err ''cookie expired'', ''alice''))),
      services = serviceManager,
      HandleSNAC = (\<lambda>service w ctx snac. (w, ctx, None))\<rparr>
     \<lparr>db = \<lparr>users = [\<lparr>ScreenName = ''alice'', Email = [], Password = [], Profile = [],
        AwayMessage = [], Status = UserStatusOnline, LastActivityAt = 0, Verified = True\<rparr>], messages = [], failing = False\<rparr>,
      sessions = (\<lambda>s. \<lparr>Session_ScreenName = [], Sequence = 0, Sent = [], Disconnected = False\<rparr>),
      sessionManager = Map.empty, onlineCh = [], logged = []\<rparr>
     \<lparr>ctx_session = Some 0, ctx_user = None\<rparr>
     \<lparr>FLAP_Header = \<lparr>Channel = 1, SequenceNumber = 1, DataLength = 8\<rparr>,
      FLAP_Data = [0, 0, 0, 1, 0, 6, 0, 0]\<rparr>) =
     \<lparr>ctx_session = Some 0, ctx_user = None\<rparr>"
  by (simp add: handler_defs)

text \<open>C3, as the code has it. On a channel-2 frame whose SNAC names a family without a
  registered service, the handler returns after its first block: the session is neither
  disconnected nor written to, the context is the refreshed one, and the log holds
  nothing about the frame but the debug entry of the first block, which is written only at
  log level DEBUG. On a channel-2 frame whose service answers an error, the handler logs
  the error, disconnects the session and runs the close handler; the session is
  disconnected afterwards.\<close>

theorem channel2_dispatch:
  assumes "SessionFromContext ctx = Inr session"
    and "handleFn_received env w ctx session flap = (w1, ctx1)"
    and "Channel (FLAP_Header flap) = 2"
  shows
    "(SNAC_UnmarshalBinary (FLAP_Data flap) = Inr snac \<and>
      GetService (services env) (Family (SNAC_Header snac)) = None \<longrightarrow>
        handleFn env w ctx flap = (w1, ctx1) \<and>
        Disconnected (sessions w1 session) = Disconnected (sessions w session) \<and>
        Sent (sessions w1 session) = Sent (sessions w session) \<and>
        logged w1 =
          logged w @ (if LogLevel env = ''DEBUG'' then [(Debug, ''RECV'')] else [])) \<and>
     (SNAC_UnmarshalBinary (FLAP_Data flap) = Inr snac \<and>
      GetService (services env) (Family (SNAC_Header snac)) = Some service \<and>
      HandleSNAC env service w1 ctx1 snac = (w2, newCtx, Some err) \<longrightarrow>
        handleFn env w ctx flap =
          (handleCloseFn (Disconnect session (log_write Error ''error handling SNAC'' w2))
             ctx1 session, newCtx) \<and>
        Disconnected (sessions (fst (handleFn env w ctx flap)) session))"
proof (intro conjI impI)
  assume a: "SNAC_UnmarshalBinary (FLAP_Data flap) = Inr snac \<and>
      GetService (services env) (Family (SNAC_Header snac)) = None"
  with assms show "handleFn env w ctx flap = (w1, ctx1)"
    by (simp add: handleFn_blocks handleFn_channel_def)
  from assms(2) show "Disconnected (sessions w1 session) = Disconnected (sessions w session)"
    by (rule received_frame)
  from assms(2) show "Sent (sessions w1 session) = Sent (sessions w session)"
    by (rule received_frame)
  from assms(2) show "logged w1 =
      logged w @ (if LogLevel env = ''DEBUG'' then [(Debug, ''RECV'')] else [])"
    by (rule received_frame)
next
  assume a: "SNAC_UnmarshalBinary (FLAP_Data flap) = Inr snac \<and>
      GetService (services env) (Family (SNAC_Header snac)) = Some service \<and>
      HandleSNAC env service w1 ctx1 snac = (w2, newCtx, Some err)"
  with assms show run: "handleFn env w ctx flap =
      (handleCloseFn (Disconnect session (log_write Error ''error handling SNAC'' w2))
         ctx1 session, newCtx)"
    by (simp add: handleFn_blocks handleFn_channel_def Let_def)
  have "Disconnected (sessions (Disconnect session (log_write Error ''error handling SNAC'' w2))
      session)"
    by (simp add: Disconnect_def)
  then show "Disconnected (sessions (fst (handleFn env w ctx flap)) session)"
    unfolding run by (simp add: handleCloseFn_Disconnected)
qed

theorem channel2_dispatch_witness:
  "SNAC_UnmarshalBinary [0, 0x13, 0, 2, 0, 0, 0, 0, 0, 1] =
     Inr \<lparr>SNAC_Header = \<lparr>Family = 0x13, Subtype = 2, Flags = 0, RequestID = 1\<rparr>, SNAC_Data = []\<rparr> \<and>
   GetService serviceManager 0x13 = None \<and>
   handleFn
     \<lparr>LogLevel = ''info'', now = 100, ServiceVersions = ServiceVersions_table,
      AuthenticateFLAPCookie = (\<lambda>w ctx flap. (w, Inr \<lparr>ScreenName = ''alice'', Email = [], Password = [], Profile = [],
        AwayMessage = [], Status = UserStatusOnline, LastActivityAt = 0, Verified = True\<rparr>)),
      services = serviceManager,
      HandleSNAC = (\<lambda>service w ctx snac. (w, ctx, None))\<rparr>
     \<lparr>db = \<lparr>users = [\<lparr>ScreenName = ''alice'', Email = [], Password = [], Profile = [],
        AwayMessage = [], Status = UserStatusOnline, LastActivityAt = 0, Verified = True\<rparr>], messages = [], failing = False\<rparr>,
      sessions = (\<lambda>s. \<lparr>Session_ScreenName = [], Sequence = 0, Sent = [], Disconnected = False\<rparr>),
      sessionManager = Map.empty, onlineCh = [], logged = []\<rparr>
     \<lparr>ctx_session = Some 0, ctx_user = None\<rparr>
     \<lparr>FLAP_Header = \<lparr>Channel = 2, SequenceNumber = 1, DataLength = 10\<rparr>,
      FLAP_Data = [0, 0x13, 0, 2, 0, 0, 0, 0, 0, 1]\<rparr> =
   (\<lparr>db = \<lparr>users = [\<lparr>ScreenName = ''alice'', Email = [], Password = [], Profile = [],
        AwayMessage = [], Status = UserStatusOnline, LastActivityAt = 0, Verified = True\<rparr>], messages = [], failing = False\<rparr>,
      sessions = (\<lambda>s. \<lparr>Session_ScreenName = [], Sequence = 0, Sent = [], Disconnected = False\<rparr>),
      sessionManager = Map.empty, onlineCh = [], logged = []\<rparr>,
    \<lparr>ctx_session = Some 0, ctx_user = None\<rparr>) \<and>
   GetService serviceManager 4 = Some ICBM \<and>
   Disconnected (sessions (fst (handleFn
     \<lparr>LogLevel = ''info'', now = 100, ServiceVersions = ServiceVersions_table,
      AuthenticateFLAPCookie = (\<lambda>w ctx flap. (w, Inr \<lparr>ScreenName = ''alice'', Email = [], Password = [], Profile = [],
        AwayMessage = [], Status = UserStatusOnline, LastActivityAt = 0, Verified = True\<rparr>)),
      services = serviceManager,
      HandleSNAC = (\<lambda>service w ctx snac. (w, ctx, Some (Err ''repository failure'')))\<rparr>
     \<lparr>db = \<lparr>users = [\<lparr>ScreenName = ''alice'', Email = [], Password = [], Profile = [],
        AwayMessage = [], Status = UserStatusOnline, LastActivityAt = 0, Verified = True\<rparr>], messages = [], failing = False\<rparr>,
      sessions = (\<lambda>s. \<lparr>Session_ScreenName = [], Sequence = 0, Sent = [], Disconnected = False\<rparr>),
      sessionManager = Map.empty, onlineCh = [], logged = []\<rparr>
     \<lparr>ctx_session = Some 0, ctx_user = None\<rparr>
     \<lparr>FLAP_Header = \<lparr>Channel = 2, SequenceNumber = 1, DataLength = 10\<rparr>,
      FLAP_Data = [0, 4, 0, 6, 0, 0, 0, 0, 0, 1]\<rparr>)) 0) \<and>
   logged (fst (handleFn
     \<lparr>LogLevel = ''info'', now = 100, ServiceVersions = ServiceVersions_table,
      AuthenticateFLAPCookie = (\<lambda>w ctx flap. (w, Inr \<lparr>ScreenName = ''alice'', Email = [], Password = [], Profile = [],
        AwayMessage = [], Status = UserStatusOnline, LastActivityAt = 0, Verified = True\<rparr>)),
      services = serviceManager,
      HandleSNAC = (\<lambda>service w ctx snac. (w, ctx, Some (Err ''repository failure'')))\<rparr>
     \<lparr>db = \<lparr>users = [\<lparr>ScreenName = ''alice'', Email = [], Password = [], Profile = [],
        AwayMessage = [], Status = UserStatusOnline, LastActivityAt = 0, Verified = True\<rparr>], messages = [], failing = False\<rparr>,
      sessions = (\<lambda>s. \<lparr>Session_ScreenName = [], Sequence = 0, Sent = [], Disconnected = False\<rparr>),
      sessionManager = Map.empty, onlineCh = [], logged = []\<rparr>
     \<lparr>ctx_session = Some 0, ctx_user = None\<rparr>
     \<lparr>FLAP_Header = \<lparr>Channel = 2, SequenceNumber = 1, DataLength = 10\<rparr>,
      FLAP_Data = [0, 4, 0, 6, 0, 0, 0, 0, 0, 1]\<rparr>)) =
     [(Error, ''error handling SNAC''), (Info, ''Disconnected'')]"
  using
    channel2_dispatch
      [where ctx = "\<lparr>ctx_session = Some 0, ctx_user = None\<rparr>"
         and session = 0
         and env = "\<lparr>LogLevel = ''info'', now = 100, ServiceVersions = ServiceVersions_table,
      AuthenticateFLAPCookie = (\<lambda>w ctx flap. (w, Inr \<lparr>ScreenName = ''alice'', Email = [], Password = [], Profile = [],
        AwayMessage = [], Status = UserStatusOnline, LastActivityAt = 0, Verified = True\<rparr>)),
      services = serviceManager,
      HandleSNAC = (\<lambda>service w ctx snac. (w, ctx, None))\<rparr>"
         and w = "\<lparr>db = \<lparr>users = [\<lparr>ScreenName = ''alice'', Email = [], Password = [], Profile = [],
        AwayMessage = [], Status = UserStatusOnline, LastActivityAt = 0, Verified = True\<rparr>], messages = [], failing = False\<rparr>,
      sessions = (\<lambda>s. \<lparr>Session_ScreenName = [], Sequence = 0, Sent = [], Disconnected = False\<rparr>),
      sessionManager = Map.empty, onlineCh = [], logged = []\<rparr>"
         and flap = "\<lparr>FLAP_Header = \<lparr>Channel = 2, SequenceNumber = 1, DataLength = 10\<rparr>,
      FLAP_Data = [0, 0x13, 0, 2, 0, 0, 0, 0, 0, 1]\<rparr>"
         and ?w1.0 = "\<lparr>db = \<lparr>users = [\<lparr>ScreenName = ''alice'', Email = [], Password = [], Profile = [],
        AwayMessage = [], Status = UserStatusOnline, LastActivityAt = 0, Verified = True\<rparr>], messages = [], failing = False\<rparr>,
      sessions = (\<lambda>s. \<lparr>Session_ScreenName = [], Sequence = 0, Sent = [], Disconnected = False\<rparr>),
      sessionManager = Map.empty, onlineCh = [], logged = []\<rparr>"
         and ?ctx1.0 = "\<lparr>ctx_session = Some 0, ctx_user = None\<rparr>"
         and snac = "\<lparr>SNAC_Header = \<lparr>Family = 0x13, Subtype = 2, Flags = 0, RequestID = 1\<rparr>, SNAC_Data = []\<rparr>"
         and service = ICBM
         and ?w2.0 = "\<lparr>db = \<lparr>users = [\<lparr>ScreenName = ''alice'', Email = [], Password = [], Profile = [],
        AwayMessage = [], Status = UserStatusOnline, LastActivityAt = 0, Verified = True\<rparr>], messages = [], failing = False\<rparr>,
      sessions = (\<lambda>s. \<lparr>Session_ScreenName = [], Sequence = 0, Sent = [], Disconnected = False\<rparr>),
      sessionManager = Map.empty, onlineCh = [], logged = []\<rparr>"
         and newCtx = "\<lparr>ctx_session = Some 0, ctx_user = None\<rparr>"
         and err = "Err ''repository failure''"]
    channel2_dispatch
      [where ctx = "\<lparr>ctx_session = Some 0, ctx_user = None\<rparr>"
         and session = 0
         and env = "\<lparr>LogLevel = ''info'', now = 100, ServiceVersions = ServiceVersions_table,
      AuthenticateFLAPCookie = (\<lambda>w ctx flap. (w, Inr \<lparr>ScreenName = ''alice'', Email = [], Password = [], Profile = [],
        AwayMessage = [], Status = UserStatusOnline, LastActivityAt = 0, Verified = True\<rparr>)),
      services = serviceManager,
      HandleSNAC = (\<lambda>service w ctx snac. (w, ctx, Some (Err ''repository failure'')))\<rparr>"
         and w = "\<lparr>db = \<lparr>users = [\<lparr>ScreenName = ''alice'', Email = [], Password = [], Profile = [],
        AwayMessage = [], Status = UserStatusOnline, LastActivityAt = 0, Verified = True\<rparr>], messages = [], failing = False\<rparr>,
      sessions = (\<lambda>s. \<lparr>Session_ScreenName = [], Sequence = 0, Sent = [], Disconnected = False\<rparr>),
      sessionManager = Map.empty, onlineCh = [], logged = []\<rparr>"
         and flap = "\<lparr>FLAP_Header = \<lparr>Channel = 2, SequenceNumber = 1, DataLength = 10\<rparr>,
      FLAP_Data = [0, 4, 0, 6, 0, 0, 0, 0, 0, 1]\<rparr>"
         and ?w1.0 = "\<lparr>db = \<lparr>users = [\<lparr>ScreenName = ''alice'', Email = [], Password = [], Profile = [],
        AwayMessage = [], Status = UserStatusOnline, LastActivityAt = 0, Verified = True\<rparr>], messages = [], failing = False\<rparr>,
      sessions = (\<lambda>s. \<lparr>Session_ScreenName = [], Sequence = 0, Sent = [], Disconnected = False\<rparr>),
      sessionManager = Map.empty, onlineCh = [], logged = []\<rparr>"
         and ?ctx1.0 = "\<lparr>ctx_session = Some 0, ctx_user = None\<rparr>"
         and snac = "\<lparr>SNAC_Header = \<lparr>Family = 4, Subtype = 6, Flags = 0, RequestID = 1\<rparr>, SNAC_Data = []\<rparr>"
         and service = ICBM
         and ?w2.0 = "\<lparr>db = \<lparr>users = [\<lparr>ScreenName = ''alice'', Email = [], Password = [], Profile = [],
        AwayMessage = [], Status = UserStatusOnline, LastActivityAt = 0, Verified = True\<rparr>], messages = [], failing = False\<rparr>,
      sessions = (\<lambda>s. \<lparr>Session_ScreenName = [], Sequence = 0, Sent = [], Disconnected = False\<rparr>),
      sessionManager = Map.empty, onlineCh = [], logged = []\<rparr>"
         and newCtx = "\<lparr>ctx_session = Some 0, ctx_user = None\<rparr>"
         and err = "Err ''repository failure''"]
  by (simp add: handler_defs)

text \<open>At log level info, a channel-2 frame for family 0x13, which \<open>main\<close> does not
  register: the frame parses, no service is found, and the log is empty afterwards.\<close>

theorem missing_family_counterexample:
  "SNAC_UnmarshalBinary [0, 0x13, 0, 2, 0, 0, 0, 0, 0, 1] =
     Inr \<lparr>SNAC_Header = \<lparr>Family = 0x13, Subtype = 2, Flags = 0, RequestID = 1\<rparr>, SNAC_Data = []\<rparr> \<and>
   GetService serviceManager 0x13 = None \<and>
   logged (fst (handleFn
     \<lparr>LogLevel = ''info'', now = 100, ServiceVersions = ServiceVersions_table,
      AuthenticateFLAPCookie = (\<lambda>w ctx flap. (w, Inr \<lparr>ScreenName = ''alice'', Email = [], Password = [], Profile = [],
        AwayMessage = [], Status = UserStatusOnline, LastActivityAt = 0, Verified = True\<rparr>)),
      services = serviceManager,
      HandleSNAC = (\<lambda>service w ctx snac. (w, ctx, None))\<rparr>
     \<lparr>db = \<lparr>users = [\<lparr>ScreenName = ''alice'', Email = [], Password = [], Profile = [],
        AwayMessage = [], Status = UserStatusOnline, LastActivityAt = 0, Verified = True\<rparr>], messages = [], failing = False\<rparr>,
      sessions = (\<lambda>s. \<lparr>Session_ScreenName = [], Sequence = 0, Sent = [], Disconnected = False\<rparr>),
      sessionManager = Map.empty, onlineCh = [], logged = []\<rparr>
     \<lparr>ctx_session = Some 0, ctx_user = None\<rparr>
     \<lparr>FLAP_Header = \<lparr>Channel = 2, SequenceNumber = 1, DataLength = 10\<rparr>,
      FLAP_Data = [0, 0x13, 0, 2, 0, 0, 0, 0, 0, 1]\<rparr>)) = [] \<and>
   \<not> Disconnected (sessions (fst (handleFn
     \<lparr>LogLevel = ''info'', now = 100, ServiceVersions = ServiceVersions_table,
      AuthenticateFLAPCookie = (\<lambda>w ctx flap. (w, Inr \<lparr>ScreenName = ''alice'', Email = [], Password = [], Profile = [],
        AwayMessage = [], Status = UserStatusOnline, LastActivityAt = 0, Verified = True\<rparr>)),
      services = serviceManager,
      HandleSNAC = (\<lambda>service w ctx snac. (w, ctx, None))\<rparr>
     \<lparr>db = \<lparr>users = [\<lparr>ScreenName = ''alice'', Email = [], Password = [], Profile = [],
        AwayMessage = [], Status = UserStatusOnline, LastActivityAt = 0, Verified = True\<rparr>], messages = [], failing = False\<rparr>,
      sessions = (\<lambda>s. \<lparr>Session_ScreenName = [], Sequence = 0, Sent = [], Disconnected = False\<rparr>),
      sessionManager = Map.empty, onlineCh = [], logged = []\<rparr>
     \<lparr>ctx_session = Some 0, ctx_user = None\<rparr>
     \<lparr>FLAP_Header = \<lparr>Channel = 2, SequenceNumber = 1, DataLength = 10\<rparr>,
      FLAP_Data = [0, 0x13, 0, 2, 0, 0, 0, 0, 0, 1]\<rparr>)) 0)"
  by (simp add: handler_defs)

text \<open>C4. For a context that carries a session and an authenticated user, the handler
  runs the close handler on a channel-4 frame, on a channel-2 frame that does not parse
  and on a channel-2 frame whose service answers an error. Whatever the world it is
  entered in, the close handler sets the status of the user's row to Away when the
  database answers (and keeps the rows), pushes the user, with status Away, onto the
  presence channel, disconnects the session and removes the user's entry from the session
  manager.\<close>

theorem close_handler_runs:
  assumes "SessionFromContext ctx = Inr session"
    and "UserFromContext ctx = Some user"
    and "handleFn_received env w ctx session flap = (w1, ctx1)"
  shows
    "(Channel (FLAP_Header flap) = 4 \<longrightarrow>
        fst (handleFn env w ctx flap) = handleCloseFn w1 ctx1 session) \<and>
     (Channel (FLAP_Header flap) = 2 \<and> SNAC_UnmarshalBinary (FLAP_Data flap) = Inl err \<longrightarrow>
        fst (handleFn env w ctx flap) =
          handleCloseFn
            (Disconnect session (log_write Error ''could not unmarshal FLAP data'' w1))
            ctx1 session) \<and>
     (Channel (FLAP_Header flap) = 2 \<and> SNAC_UnmarshalBinary (FLAP_Data flap) = Inr snac \<and>
      GetService (services env) (Family (SNAC_Header snac)) = Some service \<and>
      HandleSNAC env service w1 ctx1 snac = (w2, newCtx, Some err) \<longrightarrow>
        fst (handleFn env w ctx flap) =
          handleCloseFn (Disconnect session (log_write Error ''error handling SNAC'' w2))
            ctx1 session) \<and>
     (\<forall>v. (\<not> failing (db v) \<longrightarrow>
             (\<forall>row \<in> set (users (db (handleCloseFn v ctx1 session))).
                ScreenName row = ScreenName user \<longrightarrow> Status row = UserStatusAway)) \<and>
          map ScreenName (users (db (handleCloseFn v ctx1 session))) =
            map ScreenName (users (db v)) \<and>
          onlineCh (handleCloseFn v ctx1 session) =
            onlineCh v @ [user\<lparr>LastActivityAt := now env, Status := UserStatusAway\<rparr>] \<and>
          GetSession (handleCloseFn v ctx1 session) (ScreenName user) = None \<and>
          Disconnected (sessions (handleCloseFn v ctx1 session) session))"
proof -
  let ?user = "user\<lparr>LastActivityAt := now env\<rparr>"
  have ctx1: "ctx1 = NewContextWithUser ctx ?user"
    using assms(2,3) by (rule received_user)
  have s1: "SessionFromContext ctx1 = Inr session"
    using assms(1) by (simp add: ctx1 NewContextWithUser_def SessionFromContext_def)
  have u1: "UserFromContext ctx1 = Some ?user"
    by (simp add: ctx1 NewContextWithUser_def UserFromContext_def)
  note close = handleCloseFn_user [OF s1 u1]
  have ch4: "Channel (FLAP_Header flap) = 4 \<longrightarrow>
        fst (handleFn env w ctx flap) = handleCloseFn w1 ctx1 session"
    using assms by (simp add: handleFn_blocks handleFn_channel_def)
  have bad: "Channel (FLAP_Header flap) = 2 \<and> SNAC_UnmarshalBinary (FLAP_Data flap) = Inl err \<longrightarrow>
        fst (handleFn env w ctx flap) =
          handleCloseFn
            (Disconnect session (log_write Error ''could not unmarshal FLAP data'' w1))
            ctx1 session"
    using assms by (simp add: handleFn_blocks handleFn_channel_def Let_def)
  have svc: "Channel (FLAP_Header flap) = 2 \<and> SNAC_UnmarshalBinary (FLAP_Data flap) = Inr snac \<and>
      GetService (services env) (Family (SNAC_Header snac)) = Some service \<and>
      HandleSNAC env service w1 ctx1 snac = (w2, newCtx, Some err) \<longrightarrow>
        fst (handleFn env w ctx flap) =
          handleCloseFn (Disconnect session (log_write Error ''error handling SNAC'' w2))
            ctx1 session"
    using assms by (simp add: handleFn_blocks handleFn_channel_def Let_def)
  have effects: "\<forall>v. (\<not> failing (db v) \<longrightarrow>
             (\<forall>row \<in> set (users (db (handleCloseFn v ctx1 session))).
                ScreenName row = ScreenName user \<longrightarrow> Status row = UserStatusAway)) \<and>
          map ScreenName (users (db (handleCloseFn v ctx1 session))) =
            map ScreenName (users (db v)) \<and>
          onlineCh (handleCloseFn v ctx1 session) =
            onlineCh v @ [user\<lparr>LastActivityAt := now env, Status := UserStatusAway\<rparr>] \<and>
          GetSession (handleCloseFn v ctx1 session) (ScreenName user) = None \<and>
          Disconnected (sessions (handleCloseFn v ctx1 session) session)"
  proof (intro allI conjI impI ballI)
    fix v row
    assume "\<not> failing (db v)"
      and "row \<in> set (users (db (handleCloseFn v ctx1 session)))"
      and "ScreenName row = ScreenName user"
    then show "Status row = UserStatusAway"
      using SetAway_status [of "db v" row ?user] by (simp add: close(1))
  next
    fix v
    show "map ScreenName (users (db (handleCloseFn v ctx1 session))) =
        map ScreenName (users (db v))"
      by (simp add: close(1) SetAway_rows)
    show "onlineCh (handleCloseFn v ctx1 session) =
        onlineCh v @ [user\<lparr>LastActivityAt := now env, Status := UserStatusAway\<rparr>]"
      by (simp add: close(2))
    show "GetSession (handleCloseFn v ctx1 session) (ScreenName user) = None"
      using close(3) [of v session] by simp
    show "Disconnected (sessions (handleCloseFn v ctx1 session) session)"
      by (rule close(4))
  qed
  from ch4 bad svc effects show ?thesis
    by (intro conjI)
qed

theorem close_handler_runs_witness:
  "(let w' = fst (handleFn
     \<lparr>LogLevel = ''info'', now = 100, ServiceVersions = ServiceVersions_table,
      AuthenticateFLAPCookie = (\<lambda>w ctx flap. (w, Inr \<lparr>ScreenName = ''alice'', Email = [], Password = [], Profile = [],
        AwayMessage = [], Status = UserStatusOnline, LastActivityAt = 0, Verified = True\<rparr>)),
      services = serviceManager,
      HandleSNAC = (\<lambda>service w ctx snac. (w, ctx, None))\<rparr>
     \<lparr>db = \<lparr>users = [\<lparr>ScreenName = ''alice'', Email = [], Password = [], Profile = [],
        AwayMessage = [], Status = UserStatusOnline, LastActivityAt = 0, Verified = True\<rparr>], messages = [], failing = False\<rparr>,
      sessions = (\<lambda>s. \<lparr>Session_ScreenName = [], Sequence = 0, Sent = [], Disconnected = False\<rparr>),
      sessionManager = Map.empty, onlineCh = [], logged = []\<rparr>
     \<lparr>ctx_session = Some 0, ctx_user = Some \<lparr>ScreenName = ''alice'', Email = [], Password = [], Profile = [],
        AwayMessage = [], Status = UserStatusOnline, LastActivityAt = 0, Verified = True\<rparr>\<rparr>
     \<lparr>FLAP_Header = \<lparr>Channel = 4, SequenceNumber = 1, DataLength = 0\<rparr>,
      FLAP_Data = []\<rparr>)
    in users (db w') =
         [\<lparr>ScreenName = ''alice'', Email = [], Password = [], Profile = [],
        AwayMessage = [], Status = UserStatusAway, LastActivityAt = 0, Verified = True\<rparr>] \<and>
       onlineCh w' =
         [\<lparr>ScreenName = ''alice'', Email = [], Password = [], Profile = [],
        AwayMessage = [], Status = UserStatusAway, LastActivityAt = 100, Verified = True\<rparr>] \<and>
       GetSession w' ''alice'' = None \<and>
       Disconnected (sessions w' 0)) \<and>
   (let w' = fst (handleFn
     \<lparr>LogLevel = ''info'', now = 100, ServiceVersions = ServiceVersions_table,
      AuthenticateFLAPCookie = (\<lambda>w ctx flap. (w, Inr \<lparr>ScreenName = ''alice'', Email = [], Password = [], Profile = [],
        AwayMessage = [], Status = UserStatusOnline, LastActivityAt = 0, Verified = True\<rparr>)),
      services = serviceManager,
      HandleSNAC = (\<lambda>service w ctx snac. (w, ctx, None))\<rparr>
     \<lparr>db = \<lparr>users = [\<lparr>ScreenName = ''alice'', Email = [], Password = [], Profile = [],
        AwayMessage = [], Status = UserStatusOnline, LastActivityAt = 0, Verified = True\<rparr>], messages = [], failing = False\<rparr>,
      sessions = (\<lambda>s. \<lparr>Session_ScreenName = [], Sequence = 0, Sent = [], Disconnected = False\<rparr>),
      sessionManager = Map.empty, onlineCh = [], logged = []\<rparr>
     \<lparr>ctx_session = Some 0, ctx_user = Some \<lparr>ScreenName = ''alice'', Email = [], Password = [], Profile = [],
        AwayMessage = [], Status = UserStatusOnline, LastActivityAt = 0, Verified = True\<rparr>\<rparr>
     \<lparr>FLAP_Header = \<lparr>Channel = 2, SequenceNumber = 1, DataLength = 3\<rparr>,
      FLAP_Data = [0, 4, 0]\<rparr>)
    in users (db w') =
         [\<lparr>ScreenName = ''alice'', Email = [], Password = [], Profile = [],
        AwayMessage = [], Status = UserStatusAway, LastActivityAt = 0, Verified = True\<rparr>] \<and>
       onlineCh w' =
         [\<lparr>ScreenName = ''alice'', Email = [], Password = [], Profile = [],
        AwayMessage = [], Status = UserStatusAway, LastActivityAt = 100, Verified = True\<rparr>] \<and>
       GetSession w' ''alice'' = None \<and>
       Disconnected (sessions w' 0)) \<and>
   (let w' = fst (handleFn
     \<lparr>LogLevel = ''info'', now = 100, ServiceVersions = ServiceVersions_table,
      AuthenticateFLAPCookie = (\<lambda>w ctx flap. (w, Inr \<lparr>ScreenName = ''alice'', Email = [], Password = [], Profile = [],
        AwayMessage = [], Status = UserStatusOnline, LastActivityAt = 0, Verified = True\<rparr>)),
      services = serviceManager,
      HandleSNAC = (\<lambda>service w ctx snac. (w, ctx, Some (Err ''repository failure'')))\<rparr>
     \<lparr>db = \<lparr>users = [\<lparr>ScreenName = ''alice'', Email = [], Password = [], Profile = [],
        AwayMessage = [], Status = UserStatusOnline, LastActivityAt = 0, Verified = True\<rparr>], messages = [], failing = False\<rparr>,
      sessions = (\<lambda>s. \<lparr>Session_ScreenName = [], Sequence = 0, Sent = [], Disconnected = False\<rparr>),
      sessionManager = Map.empty, onlineCh = [], logged = []\<rparr>
     \<lparr>ctx_session = Some 0, ctx_user = Some \<lparr>ScreenName = ''alice'', Email = [], Password = [], Profile = [],
        AwayMessage = [], Status = UserStatusOnline, LastActivityAt = 0, Verified = True\<rparr>\<rparr>
     \<lparr>FLAP_Header = \<lparr>Channel = 2, SequenceNumber = 1, DataLength = 10\<rparr>,
      FLAP_Data = [0, 4, 0, 6, 0, 0, 0, 0, 0, 1]\<rparr>)
    in users (db w') =
         [\<lparr>ScreenName = ''alice'', Email = [], Password = [], Profile = [],
        AwayMessage = [], Status = UserStatusAway, LastActivityAt = 0, Verified = True\<rparr>] \<and>
       onlineCh w' =
         [\<lparr>ScreenName = ''alice'', Email = [], Password = [], Profile = [],
        AwayMessage = [], Status = UserStatusAway, LastActivityAt = 100, Verified = True\<rparr>] \<and>
       GetSession w' ''alice'' = None \<and>
       Disconnected (sessions w' 0))"
proof -
  let ?alice = "\<lparr>ScreenName = ''alice'', Email = [], Password = [], Profile = [],
        AwayMessage = [], Status = UserStatusOnline, LastActivityAt = 0, Verified = True\<rparr>"
  let ?away = "\<lparr>ScreenName = ''alice'', Email = [], Password = [], Profile = [],
        AwayMessage = [], Status = UserStatusAway, LastActivityAt = 0, Verified = True\<rparr>"
  let ?pushed = "\<lparr>ScreenName = ''alice'', Email = [], Password = [], Profile = [],
        AwayMessage = [], Status = UserStatusAway, LastActivityAt = 100, Verified = True\<rparr>"
  let ?env = "\<lparr>LogLevel = ''info'', now = 100, ServiceVersions = ServiceVersions_table,
      AuthenticateFLAPCookie = (\<lambda>w ctx flap. (w, Inr \<lparr>ScreenName = ''alice'', Email = [], Password = [], Profile = [],
        AwayMessage = [], Status = UserStatusOnline, LastActivityAt = 0, Verified = True\<rparr>)),
      services = serviceManager,
      HandleSNAC = (\<lambda>service w ctx snac. (w, ctx, None))\<rparr>"
  let ?failing = "\<lparr>LogLevel = ''info'', now = 100, ServiceVersions = ServiceVersions_table,
      AuthenticateFLAPCookie = (\<lambda>w ctx flap. (w, Inr \<lparr>ScreenName = ''alice'', Email = [], Password = [], Profile = [],
        AwayMessage = [], Status = UserStatusOnline, LastActivityAt = 0, Verified = True\<rparr>)),
      services = serviceManager,
      HandleSNAC = (\<lambda>service w ctx snac. (w, ctx, Some (Err ''repository failure'')))\<rparr>"
  let ?w = "\<lparr>db = \<lparr>users = [\<lparr>ScreenName = ''alice'', Email = [], Password = [], Profile = [],
        AwayMessage = [], Status = UserStatusOnline, LastActivityAt = 0, Verified = True\<rparr>], messages = [], failing = False\<rparr>,
      sessions = (\<lambda>s. \<lparr>Session_ScreenName = [], Sequence = 0, Sent = [], Disconnected = False\<rparr>),
      sessionManager = Map.empty, onlineCh = [], logged = []\<rparr>"
  let ?ctx = "\<lparr>ctx_session = Some 0, ctx_user = Some \<lparr>ScreenName = ''alice'', Email = [], Password = [], Profile = [],
        AwayMessage = [], Status = UserStatusOnline, LastActivityAt = 0, Verified = True\<rparr>\<rparr>"
  let ?close = "\<lparr>FLAP_Header = \<lparr>Channel = 4, SequenceNumber = 1, DataLength = 0\<rparr>,
      FLAP_Data = []\<rparr>"
  let ?short = "\<lparr>FLAP_Header = \<lparr>Channel = 2, SequenceNumber = 1, DataLength = 3\<rparr>,
      FLAP_Data = [0, 4, 0]\<rparr>"
  let ?icbm = "\<lparr>FLAP_Header = \<lparr>Channel = 2, SequenceNumber = 1, DataLength = 10\<rparr>,
      FLAP_Data = [0, 4, 0, 6, 0, 0, 0, 0, 0, 1]\<rparr>"
  let ?snac = "\<lparr>SNAC_Header = \<lparr>Family = 4, Subtype = 6, Flags = 0, RequestID = 1\<rparr>, SNAC_Data = []\<rparr>"
  let ?facts = "\<lambda>w'. users (db w') = [?away] \<and> onlineCh w' = [?pushed] \<and>
    GetSession w' ''alice'' = None \<and> Disconnected (sessions w' 0)"
  have session: "SessionFromContext ?ctx = Inr 0"
    by (simp add: SessionFromContext_def)
  have user: "UserFromContext ?ctx = Some ?alice"
    by (simp add: UserFromContext_def)
  have closed: "?facts (fst (handleFn ?env ?w ?ctx ?close))"
  proof -
    have received: "handleFn_received ?env ?w ?ctx 0 ?close =
        (fst (handleFn_received ?env ?w ?ctx 0 ?close),
         snd (handleFn_received ?env ?w ?ctx 0 ?close))"
      by simp
    note T = close_handler_runs
      [where err = "ErrShortRead" and snac = ?snac and service = ICBM
         and ?w2.0 = "fst (handleFn_received ?env ?w ?ctx 0 ?close)"
         and newCtx = "snd (handleFn_received ?env ?w ?ctx 0 ?close)",
       OF session user received]
    have cond: "Channel (FLAP_Header ?close) = 4"
      by (simp add: handler_defs)
    have run: "fst (handleFn ?env ?w ?ctx ?close) =
        handleCloseFn (fst (handleFn_received ?env ?w ?ctx 0 ?close)) (snd (handleFn_received ?env ?w ?ctx 0 ?close)) 0"
      by (rule T [THEN conjunct1, THEN mp, OF cond])
    note effects = T [THEN conjunct2, THEN conjunct2, THEN conjunct2, THEN spec,
      of "fst (handleFn_received ?env ?w ?ctx 0 ?close)", folded run]
    have rows: "users (db (fst (handleFn ?env ?w ?ctx ?close))) = [?away]"
      by (simp add: handler_defs)
    have queue: "onlineCh (fst (handleFn_received ?env ?w ?ctx 0 ?close)) = []"
      by (simp add: handler_defs)
    from effects rows queue show ?thesis
      by simp
  qed

  have unparsed: "?facts (fst (handleFn ?env ?w ?ctx ?short))"
  proof -
    have received: "handleFn_received ?env ?w ?ctx 0 ?short =
        (fst (handleFn_received ?env ?w ?ctx 0 ?short),
         snd (handleFn_received ?env ?w ?ctx 0 ?short))"
      by simp
    note T = close_handler_runs
      [where err = "ErrShortRead" and snac = ?snac and service = ICBM
         and ?w2.0 = "fst (handleFn_received ?env ?w ?ctx 0 ?short)"
         and newCtx = "snd (handleFn_received ?env ?w ?ctx 0 ?short)",
       OF session user received]
    have cond: "Channel (FLAP_Header ?short) = 2 \<and>
        SNAC_UnmarshalBinary (FLAP_Data ?short) = Inl ErrShortRead"
      by (simp add: handler_defs)
    have run: "fst (handleFn ?env ?w ?ctx ?short) =
        handleCloseFn (Disconnect 0 (log_write Error ''could not unmarshal FLAP data''
          (fst (handleFn_received ?env ?w ?ctx 0 ?short)))) (snd (handleFn_received ?env ?w ?ctx 0 ?short)) 0"
      by (rule T [THEN conjunct2, THEN conjunct1, THEN mp, OF cond])
    note effects = T [THEN conjunct2, THEN conjunct2, THEN conjunct2, THEN spec,
      of "Disconnect 0 (log_write Error ''could not unmarshal FLAP data''
          (fst (handleFn_received ?env ?w ?ctx 0 ?short)))", folded run]
    have rows: "users (db (fst (handleFn ?env ?w ?ctx ?short))) = [?away]"
      by (simp add: handler_defs)
    have queue: "onlineCh (Disconnect 0 (log_write Error ''could not unmarshal FLAP data''
          (fst (handleFn_received ?env ?w ?ctx 0 ?short)))) = []"
      by (simp add: handler_defs)
    from effects rows queue show ?thesis
      by simp
  qed

  have failed: "?facts (fst (handleFn ?failing ?w ?ctx ?icbm))"
  proof -
    have received: "handleFn_received ?failing ?w ?ctx 0 ?icbm =
        (fst (handleFn_received ?failing ?w ?ctx 0 ?icbm),
         snd (handleFn_received ?failing ?w ?ctx 0 ?icbm))"
      by simp
    note T = close_handler_runs
      [where err = "Err ''repository failure''" and snac = ?snac and service = ICBM
         and ?w2.0 = "fst (handleFn_received ?failing ?w ?ctx 0 ?icbm)"
         and newCtx = "snd (handleFn_received ?failing ?w ?ctx 0 ?icbm)",
       OF session user received]
    have cond: "Channel (FLAP_Header ?icbm) = 2 \<and>
        SNAC_UnmarshalBinary (FLAP_Data ?icbm) = Inr ?snac \<and>
        GetService (services ?failing) (Family (SNAC_Header ?snac)) = Some ICBM \<and>
        HandleSNAC ?failing ICBM (fst (handleFn_received ?failing ?w ?ctx 0 ?icbm))
          (snd (handleFn_received ?failing ?w ?ctx 0 ?icbm)) ?snac =
        (fst (handleFn_received ?failing ?w ?ctx 0 ?icbm),
         snd (handleFn_received ?failing ?w ?ctx 0 ?icbm),
         Some (Err ''repository failure''))"
      by (simp add: handler_defs)
    have run: "fst (handleFn ?failing ?w ?ctx ?icbm) =
        handleCloseFn (Disconnect 0 (log_write Error ''error handling SNAC''
          (fst (handleFn_received ?failing ?w ?ctx 0 ?icbm)))) (snd (handleFn_received ?failing ?w ?ctx 0 ?icbm)) 0"
      by (rule T [THEN conjunct2, THEN conjunct2, THEN conjunct1, THEN mp, OF cond])
    note effects = T [THEN conjunct2, THEN conjunct2, THEN conjunct2, THEN spec,
      of "Disconnect 0 (log_write Error ''error handling SNAC''
          (fst (handleFn_received ?failing ?w ?ctx 0 ?icbm)))", folded run]
    have rows: "users (db (fst (handleFn ?failing ?w ?ctx ?icbm))) = [?away]"
      by (simp add: handler_defs)
    have queue: "onlineCh (Disconnect 0 (log_write Error ''error handling SNAC''
          (fst (handleFn_received ?failing ?w ?ctx 0 ?icbm)))) = []"
      by (simp add: handler_defs)
    from effects rows queue show ?thesis
      by simp
  qed

  show ?thesis
    unfolding Let_def by (rule conjI [OF closed conjI [OF unparsed failed]])
qed

text \<open>C10. For a context that carries a session and an authenticated user, whatever the
  frame, the handler first sets the user's last activity to the current time, sets the
  session's screen name and stores the session in the session manager under the user's
  screen name, and only then looks at the channel. Where the frame needs nothing more (a
  keepalive, the hello, a channel the handler does not know), that is the state it
  returns.\<close>

theorem frame_refreshes_session:
  assumes "SessionFromContext ctx = Inr session"
    and "UserFromContext ctx = Some user"
  shows
    "handleFn env w ctx flap =
       handleFn_channel env (fst (handleFn_received env w ctx session flap))
         (snd (handleFn_received env w ctx session flap)) session flap \<and>
     UserFromContext (snd (handleFn_received env w ctx session flap)) =
       Some (user\<lparr>LastActivityAt := now env\<rparr>) \<and>
     GetSession (fst (handleFn_received env w ctx session flap)) (ScreenName user) =
       Some session \<and>
     Session_ScreenName (sessions (fst (handleFn_received env w ctx session flap)) session) =
       ScreenName user \<and>
     (Channel (FLAP_Header flap) = 5 \<or> Channel (FLAP_Header flap) \<notin> {1, 2, 4} \<or>
      (Channel (FLAP_Header flap) = 1 \<and> FLAP_Data flap = [0, 0, 0, 1]) \<longrightarrow>
        UserFromContext (snd (handleFn env w ctx flap)) =
          Some (user\<lparr>LastActivityAt := now env\<rparr>) \<and>
        GetSession (fst (handleFn env w ctx flap)) (ScreenName user) = Some session)"
proof -
  obtain w1 ctx1 where r: "handleFn_received env w ctx session flap = (w1, ctx1)"
    by (cases "handleFn_received env w ctx session flap")
  note user = received_user [OF assms(2) r]
  have run: "handleFn env w ctx flap = handleFn_channel env w1 ctx1 session flap"
    using assms(1) r by (rule handleFn_blocks)
  have u1: "UserFromContext ctx1 = Some (user\<lparr>LastActivityAt := now env\<rparr>)"
    by (simp add: user(1) NewContextWithUser_def UserFromContext_def)
  have quiet: "Channel (FLAP_Header flap) = 5 \<or> Channel (FLAP_Header flap) \<notin> {1, 2, 4} \<or>
      (Channel (FLAP_Header flap) = 1 \<and> FLAP_Data flap = [0, 0, 0, 1]) \<Longrightarrow>
        UserFromContext (snd (handleFn env w ctx flap)) =
          Some (user\<lparr>LastActivityAt := now env\<rparr>) \<and>
        GetSession (fst (handleFn env w ctx flap)) (ScreenName user) = Some session"
    unfolding run using u1 user(2)
    by (auto simp: handleFn_channel_def log_write_def GetSession_def)
  show ?thesis
    using run u1 user(2,3) quiet by (simp add: r)
qed

theorem frame_refreshes_session_witness:
  "UserFromContext (snd (handleFn
     \<lparr>LogLevel = ''info'', now = 100, ServiceVersions = ServiceVersions_table,
      AuthenticateFLAPCookie = (\<lambda>w ctx flap. (w, Inr \<lparr>ScreenName = ''alice'', Email = [], Password = [], Profile = [],
        AwayMessage = [], Status = UserStatusOnline, LastActivityAt = 0, Verified = True\<rparr>)),
      services = serviceManager,
      HandleSNAC = (\<lambda>service w ctx snac. (w, ctx, None))\<rparr>
     \<lparr>db = \<lparr>users = [\<lparr>ScreenName = ''alice'', Email = [], Password = [], Profile = [],
        AwayMessage = [], Status = UserStatusOnline, LastActivityAt = 0, Verified = True\<rparr>], messages = [], failing = False\<rparr>,
      sessions = (\<lambda>s. \<lparr>Session_ScreenName = [], Sequence = 0, Sent = [], Disconnected = False\<rparr>),
      sessionManager = Map.empty, onlineCh = [], logged = []\<rparr>
     \<lparr>ctx_session = Some 0, ctx_user = Some \<lparr>ScreenName = ''alice'', Email = [], Password = [], Profile = [],
        AwayMessage = [], Status = UserStatusOnline, LastActivityAt = 0, Verified = True\<rparr>\<rparr>
     \<lparr>FLAP_Header = \<lparr>Channel = 5, SequenceNumber = 1, DataLength = 0\<rparr>,
      FLAP_Data = []\<rparr>)) =
     Some \<lparr>ScreenName = ''alice'', Email = [], Password = [], Profile = [],
        AwayMessage = [], Status = UserStatusOnline, LastActivityAt = 100, Verified = True\<rparr> \<and>
   GetSession (fst (handleFn
     \<lparr>LogLevel = ''info'', now = 100, ServiceVersions = ServiceVersions_table,
      AuthenticateFLAPCookie = (\<lambda>w ctx flap. (w, Inr \<lparr>ScreenName = ''alice'', Email = [], Password = [], Profile = [],
        AwayMessage = [], Status = UserStatusOnline, LastActivityAt = 0, Verified = True\<rparr>)),
      services = serviceManager,
      HandleSNAC = (\<lambda>service w ctx snac. (w, ctx, None))\<rparr>
     \<lparr>db = \<lparr>users = [\<lparr>ScreenName = ''alice'', Email = [], Password = [], Profile = [],
        AwayMessage = [], Status = UserStatusOnline, LastActivityAt = 0, Verified = True\<rparr>], messages = [], failing = False\<rparr>,
      sessions = (\<lambda>s. \<lparr>Session_ScreenName = [], Sequence = 0, Sent = [], Disconnected = False\<rparr>),
      sessionManager = Map.empty, onlineCh = [], logged = []\<rparr>
     \<lparr>ctx_session = Some 0, ctx_user = Some \<lparr>ScreenName = ''alice'', Email = [], Password = [], Profile = [],
        AwayMessage = [], Status = UserStatusOnline, LastActivityAt = 0, Verified = True\<rparr>\<rparr>
     \<lparr>FLAP_Header = \<lparr>Channel = 5, SequenceNumber = 1, DataLength = 0\<rparr>,
      FLAP_Data = []\<rparr>)) ''alice'' = Some 0"
  using frame_refreshes_session
    [where ctx = "\<lparr>ctx_session = Some 0, ctx_user = Some \<lparr>ScreenName = ''alice'', Email = [], Password = [], Profile = [],
        AwayMessage = [], Status = UserStatusOnline, LastActivityAt = 0, Verified = True\<rparr>\<rparr>"
       and session = 0
       and user = "\<lparr>ScreenName = ''alice'', Email = [], Password = [], Profile = [],
        AwayMessage = [], Status = UserStatusOnline, LastActivityAt = 0, Verified = True\<rparr>"
       and env = "\<lparr>LogLevel = ''info'', now = 100, ServiceVersions = ServiceVersions_table,
      AuthenticateFLAPCookie = (\<lambda>w ctx flap. (w, Inr \<lparr>ScreenName = ''alice'', Email = [], Password = [], Profile = [],
        AwayMessage = [], Status = UserStatusOnline, LastActivityAt = 0, Verified = True\<rparr>)),
      services = serviceManager,
      HandleSNAC = (\<lambda>service w ctx snac. (w, ctx, None))\<rparr>"
       and w = "\<lparr>db = \<lparr>users = [\<lparr>ScreenName = ''alice'', Email = [], Password = [], Profile = [],
        AwayMessage = [], Status = UserStatusOnline, LastActivityAt = 0, Verified = True\<rparr>], messages = [], failing = False\<rparr>,
      sessions = (\<lambda>s. \<lparr>Session_ScreenName = [], Sequence = 0, Sent = [], Disconnected = False\<rparr>),
      sessionManager = Map.empty, onlineCh = [], logged = []\<rparr>"
       and flap = "\<lparr>FLAP_Header = \<lparr>Channel = 5, SequenceNumber = 1, DataLength = 0\<rparr>,
      FLAP_Data = []\<rparr>"]
  by (simp add: handler_defs)


end
